theory Spec2Isabelle
  imports Complex_Main
begin

section \<open>JavaScript numbers\<close>

text \<open>
  The program is TypeScript; every \<^verbatim>\<open>number\<close> is an IEEE-754 binary64 value. A finite double
  is modelled by the real it denotes, the three special values are constructors. Every
  arithmetic operation computes the exact real result and rounds it to the nearest double,
  ties to even, as IEEE-754 prescribes for \<^verbatim>\<open>+\<close>, \<^verbatim>\<open>-\<close>, \<^verbatim>\<open>*\<close>, \<^verbatim>\<open>/\<close> and \<^verbatim>\<open>Math.sqrt\<close>:
  \<open>fl\<close> below, with gradual underflow and overflow to an infinity.
  \<^verbatim>\<open>Math.pow(v, 2)\<close> is taken as the rounded product \<^verbatim>\<open>v * v\<close> (the value the fdlibm
  algorithm returns for an exponent of 2).
  Zero stands for both zeros: they differ only as divisors, and the divisors of the program
  are doubled square roots of sums of squares, array lengths, literals and the configured
  \<^verbatim>\<open>earThreshold\<close>, none of which is \<^verbatim>\<open>-0\<close> unless the threshold is configured so.
  Millisecond timestamps come from \<^verbatim>\<open>Date.now()\<close> and are integers; they are modelled as
  \<^typ>\<open>int\<close>, as are the counts and durations computed from them.
\<close>

datatype jsnum = Fin real | PInf | NInf | NaN

fun isFin :: "jsnum \<Rightarrow> bool" where
  "isFin (Fin a) = True"
| "isFin PInf = False"
| "isFin NInf = False"
| "isFin NaN = False"

fun jneg :: "jsnum \<Rightarrow> jsnum" where
  "jneg (Fin a) = Fin (- a)"
| "jneg PInf = NInf"
| "jneg NInf = PInf"
| "jneg NaN = NaN"

text \<open>
  Rounding to the nearest integer, ties to even; the binade of a nonzero real (the
  exponent of its leading bit, at least the minimal exponent -1022); and rounding to a
  double: the nearest multiple of \<open>2^(binade - 52)\<close>, or an infinity when that multiple
  reaches \<open>2^1024\<close>.
\<close>

definition rne :: "real \<Rightarrow> int" where
  "rne y = (let f = \<lfloor>y\<rfloor>; d = y - of_int f
            in if d < 1/2 then f else if 1/2 < d then f + 1 else if even f then f else f + 1)"

definition binade :: "real \<Rightarrow> int" where
  "binade x = max \<lfloor>log 2 \<bar>x\<bar>\<rfloor> (- 1022)"

definition overflowBound :: real where
  "overflowBound = 2 powi 1024"

definition fl :: "real \<Rightarrow> jsnum" where
  "fl x = (if x = 0 then Fin 0
           else let q = 2 powi (binade x - 52); r = of_int (rne (x / q)) * q
                in if overflowBound \<le> \<bar>r\<bar> then (if 0 < x then PInf else NInf) else Fin r)"

text \<open>The reals that are doubles.\<close>

definition isDouble :: "real \<Rightarrow> bool" where
  "isDouble x = (fl x = Fin x)"

fun jadd :: "jsnum \<Rightarrow> jsnum \<Rightarrow> jsnum" where
  "jadd (Fin a) (Fin b) = fl (a + b)"
| "jadd NaN _ = NaN"
| "jadd _ NaN = NaN"
| "jadd PInf NInf = NaN"
| "jadd NInf PInf = NaN"
| "jadd PInf _ = PInf"
| "jadd _ PInf = PInf"
| "jadd NInf _ = NInf"
| "jadd _ NInf = NInf"

definition jsub :: "jsnum \<Rightarrow> jsnum \<Rightarrow> jsnum" where
  "jsub a b = jadd a (jneg b)"

fun jmul :: "jsnum \<Rightarrow> jsnum \<Rightarrow> jsnum" where
  "jmul (Fin a) (Fin b) = fl (a * b)"
| "jmul NaN _ = NaN"
| "jmul _ NaN = NaN"
| "jmul (Fin a) PInf = (if a = 0 then NaN else if 0 < a then PInf else NInf)"
| "jmul (Fin a) NInf = (if a = 0 then NaN else if 0 < a then NInf else PInf)"
| "jmul PInf (Fin b) = (if b = 0 then NaN else if 0 < b then PInf else NInf)"
| "jmul NInf (Fin b) = (if b = 0 then NaN else if 0 < b then NInf else PInf)"
| "jmul PInf PInf = PInf"
| "jmul PInf NInf = NInf"
| "jmul NInf PInf = NInf"
| "jmul NInf NInf = PInf"

text \<open>Division: a finite value over zero is an infinity of its sign, zero over zero is NaN.\<close>

fun jdiv :: "jsnum \<Rightarrow> jsnum \<Rightarrow> jsnum" where
  "jdiv (Fin a) (Fin b) =
     (if b = 0 then (if a = 0 then NaN else if 0 < a then PInf else NInf) else fl (a / b))"
| "jdiv NaN _ = NaN"
| "jdiv _ NaN = NaN"
| "jdiv (Fin a) PInf = Fin 0"
| "jdiv (Fin a) NInf = Fin 0"
| "jdiv PInf (Fin b) = (if 0 \<le> b then PInf else NInf)"
| "jdiv NInf (Fin b) = (if 0 \<le> b then NInf else PInf)"
| "jdiv PInf PInf = NaN"
| "jdiv PInf NInf = NaN"
| "jdiv NInf PInf = NaN"
| "jdiv NInf NInf = NaN"

text \<open>\<^verbatim>\<open>Math.sqrt(v)\<close> and \<^verbatim>\<open>Math.pow(v, 2)\<close>.\<close>

fun jsqrt :: "jsnum \<Rightarrow> jsnum" where
  "jsqrt (Fin a) = (if 0 \<le> a then fl (sqrt a) else NaN)"
| "jsqrt PInf = PInf"
| "jsqrt NInf = NaN"
| "jsqrt NaN = NaN"

fun jpow2 :: "jsnum \<Rightarrow> jsnum" where
  "jpow2 (Fin a) = fl (a * a)"
| "jpow2 PInf = PInf"
| "jpow2 NInf = PInf"
| "jpow2 NaN = NaN"

text \<open>Comparisons: every comparison with NaN is false.\<close>

fun jlt :: "jsnum \<Rightarrow> jsnum \<Rightarrow> bool" where
  "jlt (Fin a) (Fin b) = (a < b)"
| "jlt NaN _ = False"
| "jlt _ NaN = False"
| "jlt NInf NInf = False"
| "jlt NInf _ = True"
| "jlt _ NInf = False"
| "jlt PInf _ = False"
| "jlt _ PInf = True"

definition jgt :: "jsnum \<Rightarrow> jsnum \<Rightarrow> bool" where
  "jgt a b = jlt b a"

definition jge :: "jsnum \<Rightarrow> jsnum \<Rightarrow> bool" where
  "jge a b = (a \<noteq> NaN \<and> b \<noteq> NaN \<and> \<not> jlt a b)"

text \<open>\<^verbatim>\<open>Math.max\<close> and \<^verbatim>\<open>Math.min\<close> of two arguments return NaN when either is NaN.\<close>

definition Math_max :: "jsnum \<Rightarrow> jsnum \<Rightarrow> jsnum" where
  "Math_max a b = (if a = NaN \<or> b = NaN then NaN else if jlt a b then b else a)"

definition Math_min :: "jsnum \<Rightarrow> jsnum \<Rightarrow> jsnum" where
  "Math_min a b = (if a = NaN \<or> b = NaN then NaN else if jlt b a then b else a)"

text \<open>A number that is not negative, and a real that is zero or of magnitude \<open>2^lo .. 2^hi\<close>.\<close>

fun nonnegNum :: "jsnum \<Rightarrow> bool" where
  "nonnegNum (Fin a) = (0 \<le> a)"
| "nonnegNum PInf = True"
| "nonnegNum NInf = False"
| "nonnegNum NaN = False"

definition inRange :: "int \<Rightarrow> int \<Rightarrow> real \<Rightarrow> bool" where
  "inRange lo hi x = (x = 0 \<or> (2 powi lo \<le> \<bar>x\<bar> \<and> \<bar>x\<bar> \<le> 2 powi hi))"

section \<open>Geometry extractor\<close>

text \<open>
  A landmark is \<^verbatim>\<open>{ x: number; y: number }\<close>. Reading \<^verbatim>\<open>pts[i].x\<close> with \<^verbatim>\<open>i\<close> beyond the
  array gives \<^verbatim>\<open>undefined.x\<close>, which throws a TypeError.
\<close>

record point =
  px :: jsnum
  py :: jsnum

datatype error = TypeError

text \<open>
  The expression
  \<^verbatim>\<open>Math.sqrt(Math.pow(pts[i].x - pts[j].x, 2) + Math.pow(pts[i].y - pts[j].y, 2))\<close>,
  which both aspect-ratio functions write out three times.
\<close>

definition pointDistance :: "point list \<Rightarrow> nat \<Rightarrow> nat \<Rightarrow> error + jsnum" where
  "pointDistance pts i j =
     (if i < length pts \<and> j < length pts
      then Inr (jsqrt (jadd (jpow2 (jsub (px (pts ! i)) (px (pts ! j))))
                            (jpow2 (jsub (py (pts ! i)) (py (pts ! j))))))
      else Inl TypeError)"

definition calculateEyeAspectRatio :: "point list \<Rightarrow> error + jsnum" where
  "calculateEyeAspectRatio eyePoints =
     (if length eyePoints < 6 then Inr (Fin 0)
      else case pointDistance eyePoints 1 5 of Inl e \<Rightarrow> Inl e | Inr v1 \<Rightarrow>
           (case pointDistance eyePoints 2 4 of Inl e \<Rightarrow> Inl e | Inr v2 \<Rightarrow>
           (case pointDistance eyePoints 0 3 of Inl e \<Rightarrow> Inl e | Inr h \<Rightarrow>
              Inr (jdiv (jadd v1 v2) (jmul (Fin 2) h)))))"

text \<open>The mouth function guards on six points and then reads indices 6 and 7.\<close>

definition calculateMouthAspectRatio :: "point list \<Rightarrow> error + jsnum" where
  "calculateMouthAspectRatio mouthPoints =
     (if length mouthPoints < 6 then Inr (Fin 0)
      else case pointDistance mouthPoints 2 6 of Inl e \<Rightarrow> Inl e | Inr v1 \<Rightarrow>
           (case pointDistance mouthPoints 3 7 of Inl e \<Rightarrow> Inl e | Inr v2 \<Rightarrow>
           (case pointDistance mouthPoints 0 4 of Inl e \<Rightarrow> Inl e | Inr h \<Rightarrow>
              Inr (jdiv (jadd v1 v2) (jmul (Fin 2) h)))))"

text \<open>Points with finite coordinates, and uniform scaling of a point.\<close>

definition finitePoint :: "point \<Rightarrow> bool" where
  "finitePoint p = (isFin (px p) \<and> isFin (py p))"

definition pt :: "real \<Rightarrow> real \<Rightarrow> point" where
  "pt a b = \<lparr>px = Fin a, py = Fin b\<rparr>"

definition scalePoint :: "jsnum \<Rightarrow> point \<Rightarrow> point" where
  "scalePoint k p = \<lparr>px = jmul k (px p), py = jmul k (py p)\<rparr>"

text \<open>
  Coordinates that are doubles and are zero or of magnitude \<open>2^-200 .. 2^200\<close>: their
  differences, squares and sums stay in the normal range of the format, also after scaling
  by \<open>2^n\<close> with \<open>-100 \<le> n \<le> 100\<close>.
\<close>

fun safeCoordinate :: "jsnum \<Rightarrow> bool" where
  "safeCoordinate (Fin a) = (isDouble a \<and> inRange (- 200) 200 a)"
| "safeCoordinate PInf = False"
| "safeCoordinate NInf = False"
| "safeCoordinate NaN = False"

definition safePoint :: "point \<Rightarrow> bool" where
  "safePoint p = (safeCoordinate (px p) \<and> safeCoordinate (py p))"

section \<open>Array and string helpers\<close>

text \<open>
  \<^verbatim>\<open>Array.prototype.shift\<close> removes the first element and does nothing on an empty array.
  \<^verbatim>\<open>xs.slice(start)\<close> counts a negative \<^verbatim>\<open>start\<close> from the end and clamps it to the array.
\<close>

definition shift :: "'a list \<Rightarrow> 'a list" where
  "shift xs = drop 1 xs"

definition slice_from :: "int \<Rightarrow> 'a list \<Rightarrow> 'a list" where
  "slice_from start xs =
     (let len = int (length xs);
          k = (if start < 0 then max (len + start) 0 else min start len)
      in drop (nat k) xs)"

text \<open>Decimal rendering of an integer inside a template string.\<close>

definition digitChar :: "nat \<Rightarrow> char" where
  "digitChar n = ''0123456789'' ! n"

fun showNat :: "nat \<Rightarrow> string" where
  "showNat n = (if n < 10 then [digitChar n] else showNat (n div 10) @ [digitChar (n mod 10)])"

declare showNat.simps [simp del]

definition showInt :: "int \<Rightarrow> string" where
  "showInt i = (if i < 0 then CHR ''-'' # showNat (nat (- i)) else showNat (nat i))"

section \<open>Detection history and drowsiness analysis\<close>

record DrowsinessConfig =
  earThreshold :: jsnum
  consecutiveFrames :: int
  blinkThreshold :: jsnum
  yawnThreshold :: jsnum
  alertCooldown :: int

record DetectionHistory =
  earValues :: "jsnum list"
  blinkStates :: "bool list"
  timestamps :: "int list"
  maxHistoryLength :: int
  eyeClosureStartTime :: "int option"
  lastEyeClosureDuration :: int

datatype alert_level = low | medium | high | critical

text \<open>The object returned by \<^verbatim>\<open>analyzeDrowsinessPattern\<close>.\<close>

record DrowsinessAnalysis =
  isDrowsy :: bool
  blinkRate :: nat
  avgEAR :: jsnum
  drowsinessScore :: jsnum
  alertLevel :: alert_level
  alertMessage :: string
  eyeClosureDuration :: int
  isSustainedClosure :: bool

text \<open>Lines 529-538: push the sample, then evict one entry when the cap is exceeded.\<close>

definition recordSample :: "jsnum \<Rightarrow> int \<Rightarrow> DetectionHistory \<Rightarrow> DetectionHistory" where
  "recordSample currentEAR timestamp history =
     (let h = history\<lparr>earValues := earValues history @ [currentEAR],
                      timestamps := timestamps history @ [timestamp]\<rparr>
      in if int (length (earValues h)) > maxHistoryLength h
         then h\<lparr>earValues := shift (earValues h),
                timestamps := shift (timestamps h),
                blinkStates := shift (blinkStates h)\<rparr>
         else h)"

text \<open>Lines 540-560: the closure tracker; returns \<^verbatim>\<open>eyeClosureDuration\<close> and the history.\<close>

definition trackClosure :: "bool \<Rightarrow> int \<Rightarrow> DetectionHistory \<Rightarrow> int \<times> DetectionHistory" where
  "trackClosure isEyesClosed timestamp history =
     (if isEyesClosed then
        (case eyeClosureStartTime history of
           None \<Rightarrow> (timestamp - timestamp, history\<lparr>eyeClosureStartTime := Some timestamp\<rparr>)
         | Some start \<Rightarrow> (timestamp - start, history))
      else
        (case eyeClosureStartTime history of
           None \<Rightarrow> (0, history)
         | Some start \<Rightarrow>
             (0, history\<lparr>lastEyeClosureDuration := timestamp - start,
                         eyeClosureStartTime := None\<rparr>)))"

text \<open>
  Lines 570-575: the reduce over \<^verbatim>\<open>timestamps\<close> that counts the indices with a recent
  timestamp and a true blink flag (a missing flag is \<^verbatim>\<open>undefined\<close>, hence falsy).
\<close>

definition countRecentBlinks :: "int list \<Rightarrow> bool list \<Rightarrow> int \<Rightarrow> nat" where
  "countRecentBlinks tss flags oneMinuteAgo =
     length (filter (\<lambda>i. tss ! i > oneMinuteAgo \<and> i < length flags \<and> flags ! i)
                    [0..<length tss])"

definition sumEAR :: "jsnum list \<Rightarrow> jsnum" where
  "sumEAR xs = foldl jadd (Fin 0) xs"

text \<open>Lines 596-615: the level and the message, first match wins.\<close>

definition deriveAlert :: "bool \<Rightarrow> jsnum \<Rightarrow> bool \<Rightarrow> int \<Rightarrow> alert_level \<times> string" where
  "deriveAlert sustained score drowsyFlag closureMs =
     (if sustained then
        (critical, ''CRITICAL: Eyes closed for '' @ showInt ((closureMs + 500) div 1000)
                   @ '' seconds! Wake up immediately!'')
      else if jgt score (Fin 80) then
        (critical, ''CRITICAL: Severe drowsiness detected! Please stop and rest immediately.'')
      else if jgt score (Fin 60) then
        (high, ''HIGH ALERT: Significant drowsiness detected. Consider taking a break.'')
      else if jgt score (Fin 40) then
        (medium, ''MODERATE: Drowsiness signs detected. Stay alert.'')
      else if drowsyFlag then
        (low, ''NOTICE: Mild drowsiness detected.'')
      else (low, []))"

text \<open>Lines 588-594: the score, with the sustained-closure override.\<close>

definition computeScore :: "jsnum \<Rightarrow> jsnum \<Rightarrow> nat \<Rightarrow> bool \<Rightarrow> jsnum" where
  "computeScore threshold average recentBlinks sustained =
     (let earScore = Math_max (Fin 0) (jmul (jdiv (jsub threshold average) threshold) (Fin 100));
          blinkScore = Math_max (Fin 0)
                         (jmul (jdiv (jsub (Fin 15) (Fin (real recentBlinks))) (Fin 15)) (Fin 100));
          score = Math_min (Fin 100) (jdiv (jadd earScore blinkScore) (Fin 2))
      in if sustained then Math_max score (Fin 95) else score)"

definition analyzeDrowsinessPattern ::
  "DrowsinessConfig \<Rightarrow> jsnum \<Rightarrow> int \<Rightarrow> DetectionHistory \<Rightarrow> DrowsinessAnalysis \<times> DetectionHistory"
where
  "analyzeDrowsinessPattern cfg currentEAR timestamp history =
     (let h1 = recordSample currentEAR timestamp history;
          isEyesClosed = jlt currentEAR (earThreshold cfg);
          closureMs = fst (trackClosure isEyesClosed timestamp h1);
          h2 = snd (trackClosure isEyesClosed timestamp h1);
          isBlink = (isEyesClosed \<and> closureMs < 500);
          sustained = (closureMs \<ge> 3000);
          h3 = h2\<lparr>blinkStates := blinkStates h2 @ [isBlink]\<rparr>;
          oneMinuteAgo = timestamp - 60000;
          recentBlinks = countRecentBlinks (timestamps h3) (blinkStates h3) oneMinuteAgo;
          average = (if length (earValues h3) > 0
                     then jdiv (sumEAR (earValues h3)) (Fin (real (length (earValues h3))))
                     else Fin 0);
          recentLowEARCount =
            length (filter (\<lambda>ear. jlt ear (earThreshold cfg))
                           (slice_from (- consecutiveFrames cfg) (earValues h3)));
          drowsyFlag = jge (Fin (real recentLowEARCount))
                           (jmul (Fin (real_of_int (consecutiveFrames cfg))) (fl 0.8));
          score = computeScore (earThreshold cfg) average recentBlinks sustained;
          alert = deriveAlert sustained score drowsyFlag closureMs
      in (\<lparr>isDrowsy = (drowsyFlag \<or> sustained),
           blinkRate = recentBlinks,
           avgEAR = average,
           drowsinessScore = score,
           alertLevel = fst alert,
           alertMessage = snd alert,
           eyeClosureDuration = closureMs,
           isSustainedClosure = sustained\<rparr>, h3))"

text \<open>Feeding a sequence of samples \<^verbatim>\<open>(ear, timestamp)\<close>, one call per sample.\<close>

fun analyzeAll ::
  "DrowsinessConfig \<Rightarrow> (jsnum \<times> int) list \<Rightarrow> DetectionHistory \<Rightarrow> DetectionHistory" where
  "analyzeAll cfg [] history = history"
| "analyzeAll cfg (s # samples) history =
     analyzeAll cfg samples (snd (analyzeDrowsinessPattern cfg (fst s) (snd s) history))"

text \<open>The history the component starts with (and \<^verbatim>\<open>resetSettings\<close> restores), for a given cap.\<close>

definition emptyHistory :: "int \<Rightarrow> DetectionHistory" where
  "emptyHistory cap =
     \<lparr>earValues = [], blinkStates = [], timestamps = [], maxHistoryLength = cap,
      eyeClosureStartTime = None, lastEyeClosureDuration = 0\<rparr>"

definition initialHistory :: DetectionHistory where
  "initialHistory = emptyHistory 100"

text \<open>
  The default configuration of lines 146-152. The literal 0.25 is a double; 0.2 and 0.6 are
  not, and denote the doubles nearest to them.
\<close>

definition defaultConfig :: DrowsinessConfig where
  "defaultConfig =
     \<lparr>earThreshold = Fin 0.25, consecutiveFrames = 10, blinkThreshold = fl 0.2,
      yawnThreshold = fl 0.6, alertCooldown = 3000\<rparr>"

section \<open>Session aggregator\<close>

text \<open>
  \<^verbatim>\<open>Stats\<close> and \<^verbatim>\<open>SessionData\<close> have fields named like fields of the analysis result; those
  carry the prefix \<^verbatim>\<open>stats_\<close> or \<^verbatim>\<open>session_\<close> here. \<^verbatim>\<open>SessionData.id\<close> is \<^verbatim>\<open>sessionId\<close>.
  The entries \<^verbatim>\<open>{ timestamp, value }\<close> of the two session histories are pairs, the entries
  \<^verbatim>\<open>{ timestamp, ear, drowsiness, blinks }\<close> of \<^verbatim>\<open>realTimeData\<close> are 4-tuples.
  \<^verbatim>\<open>alertsByLevel\<close> is keyed by the four level names.
\<close>

record Stats =
  eyeAspectRatio :: jsnum
  blinkCount :: nat
  alertCount :: nat
  faceDetected :: bool
  stats_blinkRate :: nat
  stats_avgEAR :: jsnum
  stats_drowsinessScore :: jsnum
  stats_eyeClosureDuration :: int
  currentEAR :: jsnum

record SessionData =
  sessionId :: string
  startTime :: int
  endTime :: "int option"
  duration :: int
  totalBlinks :: nat
  totalAlerts :: nat
  session_avgEAR :: jsnum
  maxDrowsinessScore :: jsnum
  alertsByLevel :: "alert_level \<rightharpoonup> nat"
  earHistory :: "(int \<times> jsnum) list"
  drowsinessHistory :: "(int \<times> jsnum) list"

record AnalyticsData =
  currentSession :: "SessionData option"
  sessions :: "SessionData list"
  realTimeData :: "(int \<times> jsnum \<times> jsnum \<times> nat) list"
  maxDataPoints :: int

text \<open>
  \<^verbatim>\<open>startSession\<close> reads the clock twice (for the id and for \<^verbatim>\<open>startTime\<close>); both readings
  are arguments. It does not look at \<^verbatim>\<open>prev.currentSession\<close>.
\<close>

definition newSession :: "int \<Rightarrow> int \<Rightarrow> SessionData" where
  "newSession nowId nowStart =
     \<lparr>sessionId = ''session_'' @ showInt nowId,
      startTime = nowStart,
      endTime = None,
      duration = 0,
      totalBlinks = 0,
      totalAlerts = 0,
      session_avgEAR = Fin 0,
      maxDrowsinessScore = Fin 0,
      alertsByLevel = [low \<mapsto> 0, medium \<mapsto> 0, high \<mapsto> 0, critical \<mapsto> 0],
      earHistory = [],
      drowsinessHistory = []\<rparr>"

definition startSession :: "int \<Rightarrow> int \<Rightarrow> AnalyticsData \<Rightarrow> AnalyticsData" where
  "startSession nowId nowStart prev = prev\<lparr>currentSession := Some (newSession nowId nowStart)\<rparr>"

text \<open>\<^verbatim>\<open>endSession\<close> reads the clock twice as well, and the current \<^verbatim>\<open>stats\<close>.\<close>

definition endSession :: "int \<Rightarrow> int \<Rightarrow> Stats \<Rightarrow> AnalyticsData \<Rightarrow> AnalyticsData" where
  "endSession nowEnd nowDuration st prev =
     (case currentSession prev of
        None \<Rightarrow> prev
      | Some cur \<Rightarrow>
          (let endedSession =
                 cur\<lparr>endTime := Some nowEnd,
                     duration := nowDuration - startTime cur,
                     totalBlinks := blinkCount st,
                     totalAlerts := alertCount st,
                     session_avgEAR := stats_avgEAR st,
                     maxDrowsinessScore :=
                       Math_max (maxDrowsinessScore cur) (stats_drowsinessScore st)\<rparr>
           in prev\<lparr>currentSession := None,
                   sessions := endedSession # take 49 (sessions prev)\<rparr>))"

definition updateAnalytics ::
  "int \<Rightarrow> nat \<Rightarrow> jsnum \<Rightarrow> jsnum \<Rightarrow> alert_level option \<Rightarrow> AnalyticsData \<Rightarrow> AnalyticsData" where
  "updateAnalytics now blinks earValue score lvl prev =
     (let newRealTimeData =
            slice_from (- maxDataPoints prev) (realTimeData prev @ [(now, earValue, score, blinks)]);
          updatedSession =
            (case currentSession prev of
               None \<Rightarrow> None
             | Some s \<Rightarrow>
                 (let s1 = s\<lparr>duration := now - startTime s,
                             maxDrowsinessScore := Math_max (maxDrowsinessScore s) score,
                             earHistory := slice_from (- 1000) (earHistory s @ [(now, earValue)]),
                             drowsinessHistory :=
                               slice_from (- 1000) (drowsinessHistory s @ [(now, score)])\<rparr>
                  in case lvl of
                       None \<Rightarrow> Some s1
                     | Some l \<Rightarrow>
                         Some (s1\<lparr>alertsByLevel :=
                                 (alertsByLevel s1)
                                   (l \<mapsto> (case alertsByLevel s1 l of None \<Rightarrow> 0 | Some c \<Rightarrow> c) + 1)\<rparr>)))
      in prev\<lparr>realTimeData := newRealTimeData, currentSession := updatedSession\<rparr>)"

section \<open>Alert state and the per-frame engine\<close>

text \<open>The field \<^verbatim>\<open>timestamp\<close> of \<^verbatim>\<open>AlertState\<close> is \<open>raisedAt\<close> here.\<close>

record AlertState =
  isActive :: bool
  level :: alert_level
  message :: string
  raisedAt :: int

datatype detection_status = idle | active | drowsy

text \<open>
  The state of the component: the refs, which every reader sees as they are now, and the
  React state, which a setter replaces for the renders that follow.
  \<^verbatim>\<open>alertTimeoutRef\<close> holds the delay of the pending auto-dismiss timer, if one is set.
  \<^verbatim>\<open>alertLog\<close> records the calls of \<^verbatim>\<open>triggerAlert\<close> (its last statement logs level and
  message unconditionally); sound, notification and vibration are behind \<^verbatim>\<open>alertConfig\<close>
  and are left to the alert sink.
\<close>

record Engine =
  detectionHistoryRef :: DetectionHistory
  lastBlinkRef :: int
  consecutiveDrowsyFramesRef :: nat
  alertTimeoutRef :: "int option"
  detectionStatus :: detection_status
  stats :: Stats
  config :: DrowsinessConfig
  alertState :: AlertState
  analytics :: AnalyticsData
  lastAlertTime :: int
  alertLog :: "(alert_level \<times> string) list"

text \<open>
  \<^verbatim>\<open>detectFaceAndEyes\<close> is a \<^verbatim>\<open>useCallback\<close> closure. What it reads of the React state is what
  the render that created it saw (the dependency list of line 778): \<^verbatim>\<open>config\<close>,
  \<^verbatim>\<open>alertState.level\<close>, \<^verbatim>\<open>lastAlertTime\<close> and, through \<^verbatim>\<open>updateAnalytics\<close>,
  \<^verbatim>\<open>stats.blinkRate\<close>. Line 777 reschedules this same closure, so every frame of a running
  loop reads the same captured values, whatever the frames have written to the state since.
  The closure captures \<^verbatim>\<open>isStreaming\<close> as well and returns at line 630 when that is false;
  the functions below describe the frames that are processed.
\<close>

record FrameClosure =
  seenConfig :: DrowsinessConfig
  seenLevel :: alert_level
  seenLastAlertTime :: int
  seenBlinkRate :: nat

text \<open>The closure that a render creates when the state is \<open>e\<close>.\<close>

definition renderClosure :: "Engine \<Rightarrow> FrameClosure" where
  "renderClosure e =
     \<lparr>seenConfig = config e,
      seenLevel = level (alertState e),
      seenLastAlertTime = lastAlertTime e,
      seenBlinkRate = stats_blinkRate (stats e)\<rparr>"

definition triggerAlert :: "int \<Rightarrow> alert_level \<Rightarrow> string \<Rightarrow> Engine \<Rightarrow> Engine" where
  "triggerAlert now lvl msg e =
     e\<lparr>alertState := \<lparr>isActive = True, level = lvl, message = msg, raisedAt = now\<rparr>,
       alertTimeoutRef := Some (if lvl = critical then 10000 else if lvl = high then 7000 else 5000),
       alertLog := alertLog e @ [(lvl, msg)]\<rparr>"

text \<open>The timer callback of line 441, \<^verbatim>\<open>dismissAlert\<close>, and \<^verbatim>\<open>testAlert\<close> (lines 895-903).\<close>

definition alertTimeoutFires :: "Engine \<Rightarrow> Engine" where
  "alertTimeoutFires e = e\<lparr>alertState := (alertState e)\<lparr>isActive := False\<rparr>\<rparr>"

definition dismissAlert :: "Engine \<Rightarrow> Engine" where
  "dismissAlert e = e\<lparr>alertState := (alertState e)\<lparr>isActive := False\<rparr>, alertTimeoutRef := None\<rparr>"

fun testMessage :: "alert_level \<Rightarrow> string" where
  "testMessage low = ''Test: Low level drowsiness alert''"
| "testMessage medium = ''Test: Medium level drowsiness alert''"
| "testMessage high = ''Test: High level drowsiness alert''"
| "testMessage critical = ''Test: Critical drowsiness alert''"

definition testAlert :: "int \<Rightarrow> alert_level \<Rightarrow> Engine \<Rightarrow> Engine" where
  "testAlert now lvl e = triggerAlert now lvl (testMessage lvl) e"

text \<open>
  The clock readings of one processed frame, in program order: line 655 (\<^verbatim>\<open>timestamp\<close>),
  line 724 (the cooldown test), line 356 (inside \<^verbatim>\<open>triggerAlert\<close>), line 726
  (\<^verbatim>\<open>setLastAlertTime\<close>) and line 225 (inside \<^verbatim>\<open>updateAnalytics\<close>).
\<close>

record FrameClock =
  tFrame :: int
  tCooldown :: int
  tAlert :: int
  tLastAlert :: int
  tAnalytics :: int

text \<open>
  Lines 721-727: which analysis raises an alert. The level and the time of the last alert
  are the captured ones.
\<close>

definition raiseAlerts ::
  "FrameClosure \<Rightarrow> FrameClock \<Rightarrow> DrowsinessAnalysis \<Rightarrow> Engine \<Rightarrow> Engine" where
  "raiseAlerts c clk analysis e =
     (if isSustainedClosure analysis \<and> seenLevel c \<noteq> critical then
        triggerAlert (tAlert clk) (alertLevel analysis) (alertMessage analysis) e
      else if isDrowsy analysis
              \<and> tCooldown clk - seenLastAlertTime c > alertCooldown (seenConfig c) then
        (triggerAlert (tAlert clk) (alertLevel analysis) (alertMessage analysis) e)
          \<lparr>lastAlertTime := tLastAlert clk\<rparr>
      else e)"

text \<open>
  Lines 702-759, for the averaged eye aspect ratio of the frame. The updater that
  \<^verbatim>\<open>setStats\<close> receives at line 730 runs when React next renders, after the frame has
  written \<^verbatim>\<open>lastBlinkRef\<close> at line 750; it reads the ref as it is then. The updater of
  \<^verbatim>\<open>setAnalytics\<close> reads no ref.
\<close>

definition processFace :: "FrameClosure \<Rightarrow> FrameClock \<Rightarrow> jsnum \<Rightarrow> Engine \<Rightarrow> Engine" where
  "processFace c clk ear e =
     (let analysis =
            fst (analyzeDrowsinessPattern (seenConfig c) ear (tFrame clk) (detectionHistoryRef e));
          e1 = e\<lparr>detectionHistoryRef :=
                   snd (analyzeDrowsinessPattern (seenConfig c) ear (tFrame clk)
                          (detectionHistoryRef e))\<rparr>;
          e2 = raiseAlerts c clk analysis e1;
          reported = (if alertLevel analysis \<noteq> low then Some (alertLevel analysis) else None);
          e3 = e2\<lparr>analytics :=
                   updateAnalytics (tAnalytics clk) (seenBlinkRate c) ear
                     (drowsinessScore analysis) reported (analytics e2)\<rparr>;
          blinked = (jlt ear (blinkThreshold (seenConfig c)) \<and> tFrame clk - lastBlinkRef e > 200);
          e4 = (if blinked then e3\<lparr>lastBlinkRef := tFrame clk\<rparr> else e3);
          e5 = (if isDrowsy analysis
                then e4\<lparr>consecutiveDrowsyFramesRef := consecutiveDrowsyFramesRef e4 + 1,
                        detectionStatus := drowsy\<rparr>
                else e4\<lparr>consecutiveDrowsyFramesRef := 0, detectionStatus := active\<rparr>);
          counted = (jlt ear (blinkThreshold (seenConfig c)) \<and> tFrame clk - lastBlinkRef e5 > 200)
      in e5\<lparr>stats := (stats e5)
              \<lparr>currentEAR := ear,
               stats_blinkRate := blinkRate analysis,
               stats_drowsinessScore := drowsinessScore analysis,
               stats_eyeClosureDuration := eyeClosureDuration analysis,
               faceDetected := True,
               eyeAspectRatio := ear,
               blinkCount := blinkCount (stats e5) + (if counted then 1 else 0),
               alertCount := alertCount (stats e5) + (if alertLevel analysis \<noteq> low then 1 else 0)\<rparr>\<rparr>)"

text \<open>
  What the landmark detector hands to a frame: no face, or the eye and mouth point lists
  (after the index lookup and \<^verbatim>\<open>filter(Boolean)\<close>).
\<close>

datatype Prediction = NoFace | Face "point list" "point list" "point list"

text \<open>
  \<^verbatim>\<open>detectFaceAndEyes\<close> from line 652 on. An exception thrown by an aspect-ratio function is
  caught at line 772, which only logs: the frame then leaves the state as it was.
\<close>

definition detectFaceAndEyes ::
  "FrameClosure \<Rightarrow> FrameClock \<Rightarrow> Prediction \<Rightarrow> Engine \<Rightarrow> Engine" where
  "detectFaceAndEyes c clk prediction e =
     (case prediction of
        NoFace \<Rightarrow>
          e\<lparr>stats := (stats e)
               \<lparr>faceDetected := False,
                eyeAspectRatio := Fin 0,
                currentEAR := Fin 0,
                stats_blinkRate := 0,
                stats_drowsinessScore := Fin 0,
                stats_eyeClosureDuration := 0\<rparr>,
            detectionStatus := active\<rparr>
      | Face leftEyePoints rightEyePoints mouthPoints \<Rightarrow>
          (case calculateEyeAspectRatio leftEyePoints of Inl err \<Rightarrow> e | Inr leftEAR \<Rightarrow>
          (case calculateEyeAspectRatio rightEyePoints of Inl err \<Rightarrow> e | Inr rightEAR \<Rightarrow>
          (case calculateMouthAspectRatio mouthPoints of Inl err \<Rightarrow> e | Inr mouthAR \<Rightarrow>
             processFace c clk (jdiv (jadd leftEAR rightEAR) (Fin 2)) e))))"

text \<open>
  The operations on the component as events. A run is the frames of one loop, all
  processed by the closure \<open>c\<close>, with the user's and the timer's events between them.
\<close>

datatype Event =
    Frame FrameClock Prediction
  | DismissAlert
  | AlertTimeout
  | TestAlert int alert_level
  | StartSession int int
  | EndSession int int

fun step :: "FrameClosure \<Rightarrow> Engine \<Rightarrow> Event \<Rightarrow> Engine" where
  "step c e (Frame clk prediction) = detectFaceAndEyes c clk prediction e"
| "step c e DismissAlert = dismissAlert e"
| "step c e AlertTimeout = alertTimeoutFires e"
| "step c e (TestAlert now lvl) = testAlert now lvl e"
| "step c e (StartSession nowId nowStart) =
     e\<lparr>analytics := startSession nowId nowStart (analytics e)\<rparr>"
| "step c e (EndSession nowEnd nowDuration) =
     e\<lparr>analytics := endSession nowEnd nowDuration (stats e) (analytics e)\<rparr>"

definition run :: "FrameClosure \<Rightarrow> Engine \<Rightarrow> Event list \<Rightarrow> Engine" where
  "run c e events = foldl (step c) e events"

text \<open>The state of a freshly mounted component (lines 114-178).\<close>

definition initialEngine :: Engine where
  "initialEngine =
     \<lparr>detectionHistoryRef = initialHistory,
      lastBlinkRef = 0,
      consecutiveDrowsyFramesRef = 0,
      alertTimeoutRef = None,
      detectionStatus = idle,
      stats = \<lparr>eyeAspectRatio = Fin 0, blinkCount = 0, alertCount = 0, faceDetected = False,
               stats_blinkRate = 0, stats_avgEAR = Fin 0, stats_drowsinessScore = Fin 0,
               stats_eyeClosureDuration = 0, currentEAR = Fin 0\<rparr>,
      config = defaultConfig,
      alertState = \<lparr>isActive = False, level = low, message = [], raisedAt = 0\<rparr>,
      analytics = \<lparr>currentSession = None, sessions = [], realTimeData = [], maxDataPoints = 300\<rparr>,
      lastAlertTime = 0,
      alertLog = []\<rparr>"

text \<open>
  The assessment that a frame with averaged eye aspect ratio \<open>ear\<close> computes (line 702).
\<close>

definition frameAnalysis ::
  "FrameClosure \<Rightarrow> FrameClock \<Rightarrow> jsnum \<Rightarrow> Engine \<Rightarrow> DrowsinessAnalysis" where
  "frameAnalysis c clk ear e =
     fst (analyzeDrowsinessPattern (seenConfig c) ear (tFrame clk) (detectionHistoryRef e))"

section \<open>Scenarios\<close>

text \<open>A frame whose clock readings all show the same instant.\<close>

definition atTime :: "int \<Rightarrow> FrameClock" where
  "atTime t = \<lparr>tFrame = t, tCooldown = t, tAlert = t, tLastAlert = t, tAnalytics = t\<rparr>"

text \<open>
  Two eye shapes with horizontal width 1: lids shut (ratio 0) and lids one unit apart
  (ratio 1), and a mouth of eight points.
\<close>

definition closedEye :: "point list" where
  "closedEye = [pt 0 0, pt 0 0, pt 1 0, pt 1 0, pt 1 0, pt 0 0]"

definition openEye :: "point list" where
  "openEye = [pt 0 0, pt 0 1, pt 1 1, pt 1 0, pt 1 0, pt 0 0]"

definition restMouth :: "point list" where
  "restMouth = [pt 0 0, pt 0 0, pt 0 0, pt 1 0, pt 1 0, pt 1 0, pt 0 0, pt 1 0]"

text \<open>An eye of width 8 whose lids are 4 and 0 units apart, at a slant.\<close>

definition slantedEye :: "point list" where
  "slantedEye = [pt 0 12, pt 4 12, pt 8 8, pt 0 4, pt 8 8, pt 8 8]"

text \<open>
  Histories after direct calls of the analysis with the default configuration: one sample
  of closed eyes at 10000 ms, and the same after a NaN sample at 9000 ms.
\<close>

definition closedHistory :: DetectionHistory where
  "closedHistory = analyzeAll defaultConfig [(Fin 0, 10000)] initialHistory"

definition nanHistory :: DetectionHistory where
  "nanHistory = analyzeAll defaultConfig [(NaN, 9000), (Fin 0, 10000)] initialHistory"

text \<open>
  A closure with the values of the freshly mounted component (level low, last alert time
  0), which are the values every render captures until the first alert; and a closure that
  has captured a last alert at 12900 ms.
\<close>

definition freshClosure :: FrameClosure where
  "freshClosure = renderClosure initialEngine"

definition hurriedClosure :: FrameClosure where
  "hurriedClosure = freshClosure\<lparr>seenLastAlertTime := 12900\<rparr>"

text \<open>A frame at \<open>t\<close> with both eyes shut, and loops of the fresh closure on the fresh state.\<close>

definition closedFrame :: "int \<Rightarrow> Event" where
  "closedFrame t = Frame (atTime t) (Face closedEye closedEye restMouth)"

text \<open>Eyes shut at 10000 ms; then a frame without a face.\<close>

definition closingEngine :: Engine where
  "closingEngine = run freshClosure initialEngine [closedFrame 10000]"

definition gapEngine :: Engine where
  "gapEngine = run freshClosure initialEngine [closedFrame 10000, Frame (atTime 10100) NoFace]"

text \<open>Eyes shut for two seconds, one frame per second.\<close>

definition longClosureEngine :: Engine where
  "longClosureEngine =
     run freshClosure initialEngine [closedFrame 10000, closedFrame 11000, closedFrame 12000]"


text \<open>An aggregator with a session open.\<close>

definition openSession :: AnalyticsData where
  "openSession = startSession 1000 1001 (analytics initialEngine)"

section \<open>Properties of rounding\<close>

lemma fl_not_NaN [simp]: "fl x \<noteq> NaN"
  by (simp add: fl_def Let_def)

lemma fl_0 [simp]: "fl 0 = Fin 0"
  by (simp add: fl_def)

lemma rne_of_int [simp]: "rne (of_int n) = n"
  by (simp add: rne_def)

lemma rne_0 [simp]: "rne 0 = 0"
  using rne_of_int [of 0] by simp

lemma rne_floor_or_ceil: "rne y = \<lfloor>y\<rfloor> \<or> rne y = \<lfloor>y\<rfloor> + 1"
  by (simp add: rne_def Let_def)

lemma rne_unique:
  assumes "\<bar>y - of_int m\<bar> < 1/2"
  shows "rne y = m"
proof (cases "of_int m \<le> y")
  case True
  then have "\<lfloor>y\<rfloor> = m" using assms by (intro floor_unique) (auto simp: abs_if split: if_splits)
  then show ?thesis using assms True by (simp add: rne_def Let_def abs_if split: if_splits)
next
  case False
  then have "\<lfloor>y\<rfloor> = m - 1" using assms by (intro floor_unique) (auto simp: abs_if split: if_splits)
  then show ?thesis using assms False by (simp add: rne_def Let_def abs_if split: if_splits)
qed

lemma rne_mono:
  assumes "x \<le> y"
  shows "rne x \<le> rne y"
proof (cases "\<lfloor>x\<rfloor> = \<lfloor>y\<rfloor>")
  case True
  then show ?thesis using assms by (auto simp: rne_def Let_def)
next
  case False
  then have "\<lfloor>x\<rfloor> + 1 \<le> \<lfloor>y\<rfloor>" using assms floor_mono [of x y] by linarith
  moreover have "rne x \<le> \<lfloor>x\<rfloor> + 1" using rne_floor_or_ceil [of x] by auto
  moreover have "\<lfloor>y\<rfloor> \<le> rne y" using rne_floor_or_ceil [of y] by auto
  ultimately show ?thesis by linarith
qed

lemma rne_nonneg: "0 \<le> y \<Longrightarrow> 0 \<le> rne y"
  using rne_mono [of 0 y] by simp

lemma two_powi_pos [simp]: "0 < (2::real) powi n"
  by (simp add: power_int_def)

lemma two_powi_add: "(2::real) powi (a + b) = 2 powi a * 2 powi b"
  by (simp add: power_int_add)

lemma two_powi_eq: "a = b + c \<Longrightarrow> (2::real) powi a = 2 powi b * 2 powi c"
  by (simp add: power_int_add)

lemma two_powi_mono: "a \<le> b \<Longrightarrow> (2::real) powi a \<le> 2 powi b"
  by (simp add: power_int_increasing)

lemma two_powi_strict_mono: "a < b \<Longrightarrow> (2::real) powi a < 2 powi b"
  by (simp add: power_int_strict_increasing)

lemma two_powi_less_cancel: "(2::real) powi a < 2 powi b \<Longrightarrow> a < b"
  by (metis not_less two_powi_mono)

lemma below_overflow: "b \<le> 1023 \<Longrightarrow> \<bar>x\<bar> \<le> 2 powi b \<Longrightarrow> \<not> overflowBound \<le> \<bar>x\<bar>"
  unfolding overflowBound_def using two_powi_strict_mono [of b 1024] by linarith

lemma floor_log2_eq:
  assumes "2 powi e \<le> \<bar>x\<bar>" "\<bar>x\<bar> < 2 powi (e + 1)"
  shows "\<lfloor>log 2 \<bar>x\<bar>\<rfloor> = e"
proof -
  have pos: "0 < \<bar>x\<bar>" using assms(1) two_powi_pos [of e] by linarith
  have "(2::real) powr (real_of_int e) = 2 powi e" by (simp add: powr_real_of_int')
  moreover have "(2::real) powr (real_of_int e + 1) = 2 powi (e + 1)"
    using powr_real_of_int' [of 2 "e + 1"] by simp
  ultimately show ?thesis
    using assms pos by (simp add: floor_log_eq_powr_iff)
qed

lemma floor_log2_bounds:
  assumes "x \<noteq> 0"
  shows "2 powi \<lfloor>log 2 \<bar>x\<bar>\<rfloor> \<le> \<bar>x\<bar>" "\<bar>x\<bar> < 2 powi (\<lfloor>log 2 \<bar>x\<bar>\<rfloor> + 1)"
proof -
  have pos: "0 < \<bar>x\<bar>" using assms by simp
  let ?e = "\<lfloor>log 2 \<bar>x\<bar>\<rfloor>"
  have "2 powr (real_of_int ?e) \<le> \<bar>x\<bar> \<and> \<bar>x\<bar> < 2 powr (real_of_int ?e + 1)"
    using floor_log_eq_powr_iff [of "\<bar>x\<bar>" 2 ?e] pos by simp
  moreover have "(2::real) powr (real_of_int ?e) = 2 powi ?e" by (simp add: powr_real_of_int')
  moreover have "(2::real) powr (real_of_int ?e + 1) = 2 powi (?e + 1)"
    using powr_real_of_int' [of 2 "?e + 1"] by simp
  ultimately show "2 powi ?e \<le> \<bar>x\<bar>" "\<bar>x\<bar> < 2 powi (?e + 1)" by simp_all
qed

text \<open>The value of \<open>fl\<close> in the normal range, given the binade.\<close>

lemma binade_normal:
  assumes "2 powi e \<le> \<bar>x\<bar>" "\<bar>x\<bar> < 2 powi (e + 1)" "- 1022 \<le> e"
  shows "binade x = e"
  using floor_log2_eq [OF assms(1,2)] assms(3) by (simp add: binade_def)

lemma fl_normal:
  assumes "2 powi e \<le> \<bar>x\<bar>" "\<bar>x\<bar> < 2 powi (e + 1)" "- 1022 \<le> e"
  shows "fl x = (if overflowBound \<le> \<bar>real_of_int (rne (x / 2 powi (e - 52))) * 2 powi (e - 52)\<bar>
                 then (if 0 < x then PInf else NInf)
                 else Fin (real_of_int (rne (x / 2 powi (e - 52))) * 2 powi (e - 52)))"
proof -
  have "0 < \<bar>x\<bar>" using assms(1) two_powi_pos [of e] by linarith
  then have "x \<noteq> 0" by simp
  then show ?thesis by (simp add: fl_def Let_def binade_normal [OF assms])
qed

text \<open>Rounding keeps the sign.\<close>

lemma fl_nonneg:
  assumes "0 \<le> x"
  shows "fl x = PInf \<or> (\<exists>r. 0 \<le> r \<and> fl x = Fin r)"
proof (cases "x = 0")
  case True
  then show ?thesis by simp
next
  case False
  let ?q = "(2::real) powi (binade x - 52)"
  have "0 \<le> x / ?q" using assms by simp
  then have "0 \<le> real_of_int (rne (x / ?q)) * ?q" using rne_nonneg by simp
  then show ?thesis using False assms by (auto simp: fl_def Let_def)
qed

text \<open>Every \<open>m * 2^k\<close> with \<open>|m| < 2^53\<close> in the range of the format is a double.\<close>

lemma fl_dyadic:
  assumes x: "x = real_of_int m * 2 powi k" and m: "\<bar>m\<bar> < 2 ^ 53" and k: "- 1074 \<le> k"
    and r: "\<not> overflowBound \<le> \<bar>x\<bar>"
  shows "fl x = Fin x"
proof (cases "x = 0")
  case True
  then show ?thesis by simp
next
  case False
  let ?e = "binade x"
  have "\<bar>x\<bar> < 2 powi (k + 53)"
  proof -
    have "\<bar>real_of_int m\<bar> < 2 ^ 53" using m by (metis of_int_abs of_int_less_numeral_power_cancel_iff)
    then have "\<bar>real_of_int m\<bar> * 2 powi k < 2 ^ 53 * 2 powi k"
      by (simp add: mult_strict_right_mono)
    then show ?thesis by (simp add: x abs_mult two_powi_add)
  qed
  then have "2 powi \<lfloor>log 2 \<bar>x\<bar>\<rfloor> < (2::real) powi (k + 53)"
    using floor_log2_bounds(1) [OF False] by linarith
  then have "\<lfloor>log 2 \<bar>x\<bar>\<rfloor> < k + 53" by (rule two_powi_less_cancel)
  then have e: "?e - 52 \<le> k" using k by (simp add: binade_def)
  define j where "j = nat (k - (?e - 52))"
  define q where "q = (2::real) powi (?e - 52)"
  have kk: "k = (?e - 52) + int j" using e by (simp add: j_def)
  have q: "0 < q" by (simp add: q_def)
  have pk: "(2::real) powi k = q * 2 ^ j"
    unfolding q_def by (subst kk) (simp add: two_powi_add)
  have xq: "x = real_of_int (m * 2 ^ j) * q"
    by (simp add: x pk)
  then have "x / q = real_of_int (m * 2 ^ j)" using q by simp
  then have "rne (x / q) = m * 2 ^ j" by (simp only: rne_of_int)
  then have "real_of_int (rne (x / q)) * q = x" using xq by simp
  then show ?thesis using False r by (simp add: fl_def Let_def q_def)
qed

lemma fl_of_int:
  assumes "\<bar>n\<bar> < 2 ^ 53"
  shows "fl (real_of_int n) = Fin (real_of_int n)"
proof -
  have "\<bar>real_of_int n\<bar> < 2 ^ 53"
    using assms by (metis of_int_abs of_int_less_numeral_power_cancel_iff)
  also have "\<dots> = (2::real) powi 53" by simp
  finally have "\<not> overflowBound \<le> \<bar>real_of_int n\<bar>"
    using below_overflow [of 53 "real_of_int n"] by simp
  then show ?thesis using fl_dyadic [of "real_of_int n" n 0] assms by simp
qed


section \<open>Ranges and scaling\<close>

lemma powi_le_abs_nonzero: "2 powi lo \<le> \<bar>x::real\<bar> \<Longrightarrow> x \<noteq> 0"
proof -
  assume "2 powi lo \<le> \<bar>x\<bar>"
  then have "0 < \<bar>x\<bar>" using two_powi_pos [of lo] by linarith
  then show ?thesis by simp
qed

lemma rne_between:
  assumes "of_int a \<le> y" "y \<le> of_int b"
  shows "a \<le> rne y" "rne y \<le> b"
  using rne_mono [OF assms(1)] rne_mono [OF assms(2)] by simp_all

lemma binade_ge:
  assumes "2 powi lo \<le> \<bar>x\<bar>"
  shows "lo \<le> \<lfloor>log 2 \<bar>x\<bar>\<rfloor>"
proof -
  have "x \<noteq> 0" using assms by (rule powi_le_abs_nonzero)
  then have "(2::real) powi lo < 2 powi (\<lfloor>log 2 \<bar>x\<bar>\<rfloor> + 1)"
    using floor_log2_bounds(2) [of x] assms by linarith
  then have "lo < \<lfloor>log 2 \<bar>x\<bar>\<rfloor> + 1" by (rule two_powi_less_cancel)
  then show ?thesis by simp
qed

lemma binade_le:
  assumes "x \<noteq> 0" "\<bar>x\<bar> \<le> 2 powi hi"
  shows "\<lfloor>log 2 \<bar>x\<bar>\<rfloor> \<le> hi"
proof -
  have "(2::real) powi \<lfloor>log 2 \<bar>x\<bar>\<rfloor> < 2 powi (hi + 1)"
    using floor_log2_bounds(1) [OF assms(1)] assms(2) two_powi_strict_mono [of hi "hi + 1"]
    by linarith
  then have "\<lfloor>log 2 \<bar>x\<bar>\<rfloor> < hi + 1" by (rule two_powi_less_cancel)
  then show ?thesis by simp
qed

lemma fl_normal_bounds:
  assumes "2 powi e \<le> \<bar>x\<bar>" "\<bar>x\<bar> < 2 powi (e + 1)" "- 1022 \<le> e" "e \<le> 1022"
  shows "\<exists>r. fl x = Fin r \<and> 2 powi e \<le> \<bar>r\<bar> \<and> \<bar>r\<bar> \<le> 2 powi (e + 1) \<and> (0 < x \<longleftrightarrow> 0 < r)
           \<and> r = real_of_int (rne (x / 2 powi (e - 52))) * 2 powi (e - 52)"
proof -
  define q where "q = (2::real) powi (e - 52)"
  define m where "m = rne (x / q)"
  have q: "0 < q" by (simp add: q_def)
  have e1: "(2::real) powi e = 2 ^ 52 * q"
    using two_powi_add [of 52 "e - 52"] by (simp add: q_def)
  have e2: "(2::real) powi (e + 1) = 2 ^ 53 * q"
    using two_powi_add [of 53 "e - 52"] by (simp add: q_def add.commute)
  have xnz: "x \<noteq> 0" using assms(1) by (rule powi_le_abs_nonzero)
  have mb: "2 ^ 52 \<le> \<bar>m\<bar> \<and> \<bar>m\<bar> \<le> 2 ^ 53 \<and> (0 < x \<longleftrightarrow> 0 < m)"
  proof (cases "0 < x")
    case True
    then have "2 ^ 52 * q \<le> x" "x \<le> 2 ^ 53 * q" using assms(1,2) e1 e2 by simp_all
    then have "real_of_int (2 ^ 52) \<le> x / q" "x / q \<le> real_of_int (2 ^ 53)"
      using q by (simp_all add: pos_le_divide_eq pos_divide_le_eq)
    then have "2 ^ 52 \<le> m" "m \<le> 2 ^ 53" unfolding m_def by (rule rne_between)+
    then show ?thesis using True by simp
  next
    case False
    then have neg: "x < 0" using xnz by simp
    then have "2 ^ 52 * q \<le> - x" "- x \<le> 2 ^ 53 * q" using assms(1,2) e1 e2 by simp_all
    then have "real_of_int (- (2 ^ 53)) \<le> x / q" "x / q \<le> real_of_int (- (2 ^ 52))"
      using q by (simp_all add: field_simps)
    then have "- (2 ^ 53) \<le> m" "m \<le> - (2 ^ 52)" unfolding m_def by (rule rne_between)+
    then show ?thesis using neg by simp
  qed
  define r where "r = real_of_int m * q"
  have absr: "\<bar>r\<bar> = real_of_int \<bar>m\<bar> * q" using q by (simp add: r_def abs_mult)
  have "real_of_int (2 ^ 52) \<le> real_of_int \<bar>m\<bar>" "real_of_int \<bar>m\<bar> \<le> real_of_int (2 ^ 53)"
    using mb by (simp_all only: of_int_le_iff)
  then have "2 ^ 52 * q \<le> \<bar>r\<bar>" "\<bar>r\<bar> \<le> 2 ^ 53 * q"
    using q by (simp_all add: absr)
  then have rb: "2 powi e \<le> \<bar>r\<bar>" "\<bar>r\<bar> \<le> 2 powi (e + 1)" by (simp_all add: e1 e2)
  have "\<bar>r\<bar> \<le> 2 powi 1023"
    using rb(2) two_powi_mono [of "e + 1" 1023] assms(4) by linarith
  then have no: "\<not> overflowBound \<le> \<bar>r\<bar>" using below_overflow [of 1023 r] by simp
  have sg: "0 < x \<longleftrightarrow> 0 < r" using mb q by (simp add: r_def zero_less_mult_iff)
  have "fl x = Fin r"
    using fl_normal [OF assms(1,2,3)] no by (simp add: r_def m_def q_def)
  then show ?thesis using rb sg by (auto simp: r_def m_def q_def)
qed

lemma fl_pow2: 
  assumes "- 1074 \<le> k" "k \<le> 1023"
  shows "fl (2 powi k) = Fin (2 powi k)" "fl (- (2 powi k)) = Fin (- (2 powi k))"
proof -
  have no: "\<not> overflowBound \<le> \<bar>(2::real) powi k\<bar>"
    using below_overflow [of k "2 powi k"] assms by simp
  show "fl (2 powi k) = Fin (2 powi k)"
    using fl_dyadic [of "2 powi k" 1 k] no assms by simp
  show "fl (- (2 powi k)) = Fin (- (2 powi k))"
    using fl_dyadic [of "- (2 powi k)" "- 1" k] no assms by simp
qed

lemma fl_range:
  assumes "2 powi lo \<le> \<bar>x\<bar>" "\<bar>x\<bar> \<le> 2 powi hi" "- 1022 \<le> lo" "hi \<le> 1023"
  shows "\<exists>r. fl x = Fin r \<and> 2 powi lo \<le> \<bar>r\<bar> \<and> \<bar>r\<bar> \<le> 2 powi hi \<and> (0 < x \<longleftrightarrow> 0 < r)"
proof -
  define e where "e = \<lfloor>log 2 \<bar>x\<bar>\<rfloor>"
  have xnz: "x \<noteq> 0" using assms(1) by (rule powi_le_abs_nonzero)
  have lo: "lo \<le> e" unfolding e_def using assms(1) by (rule binade_ge)
  have hi: "e \<le> hi" unfolding e_def using xnz assms(2) by (rule binade_le)
  have b: "2 powi e \<le> \<bar>x\<bar>" "\<bar>x\<bar> < 2 powi (e + 1)"
    unfolding e_def using floor_log2_bounds [OF xnz] by simp_all
  show ?thesis
  proof (cases "e = hi")
    case True
    then have "\<bar>x\<bar> = 2 powi hi" using b(1) assms(2) by simp
    then have "x = 2 powi hi \<or> x = - (2 powi hi)" by (auto simp: abs_if split: if_splits)
    then show ?thesis
      using fl_pow2 [of hi] assms lo hi True two_powi_mono [of lo hi] two_powi_pos [of hi]
      by (auto simp: not_less intro: less_imp_le)
  next
    case False
    then have "e \<le> 1022" "e + 1 \<le> hi" using hi assms(4) by simp_all
    moreover have "- 1022 \<le> e" using lo assms(3) by simp
    ultimately obtain r where r: "fl x = Fin r" "2 powi e \<le> \<bar>r\<bar>" "\<bar>r\<bar> \<le> 2 powi (e + 1)"
        "0 < x \<longleftrightarrow> 0 < r"
      using fl_normal_bounds [OF b] by blast
    have "2 powi lo \<le> \<bar>r\<bar>" using r(2) two_powi_mono [OF lo] by linarith
    moreover have "\<bar>r\<bar> \<le> 2 powi hi"
      using r(3) two_powi_mono [OF \<open>e + 1 \<le> hi\<close>] by linarith
    ultimately show ?thesis using r(1,4) by blast
  qed
qed

text \<open>Scaling by a power of two commutes with rounding while nothing leaves the normal range.\<close>

lemma fl_scale:
  assumes "2 powi lo \<le> \<bar>x\<bar>" "\<bar>x\<bar> \<le> 2 powi hi" "- 1022 \<le> lo" "hi \<le> 1023"
    and "- 1022 \<le> lo + n" "hi + n \<le> 1023" and "fl x = Fin r"
  shows "fl (2 powi n * x) = Fin (2 powi n * r)"
proof -
  define e where "e = \<lfloor>log 2 \<bar>x\<bar>\<rfloor>"
  define q where "q = (2::real) powi (e - 52)"
  have xnz: "x \<noteq> 0" using assms(1) by (rule powi_le_abs_nonzero)
  have lo: "lo \<le> e" unfolding e_def using assms(1) by (rule binade_ge)
  have b: "2 powi e \<le> \<bar>x\<bar>" "\<bar>x\<bar> < 2 powi (e + 1)"
    unfolding e_def using floor_log2_bounds [OF xnz] by simp_all
  have bx: "binade x = e" using lo assms(3) by (simp add: binade_def e_def)
  obtain r' where r': "fl x = Fin r'" "\<bar>r'\<bar> \<le> 2 powi hi"
    using fl_range [OF assms(1-4)] by blast
  then have rr: "r' = r" using assms(7) by simp
  have rq: "r = real_of_int (rne (x / q)) * q"
    using assms(7) xnz by (simp add: fl_def Let_def bx q_def split: if_splits)
  have pn: "0 < (2::real) powi n" by simp
  have b2: "2 powi (e + n) \<le> \<bar>2 powi n * x\<bar>" "\<bar>2 powi n * x\<bar> < 2 powi (e + n + 1)"
  proof -
    have "2 powi n * 2 powi e \<le> 2 powi n * \<bar>x\<bar>" using b(1) pn by simp
    then show "2 powi (e + n) \<le> \<bar>2 powi n * x\<bar>"
      by (simp add: abs_mult two_powi_add mult.commute)
    have "2 powi n * \<bar>x\<bar> < 2 powi n * 2 powi (e + 1)" using b(2) pn by simp
    then show "\<bar>2 powi n * x\<bar> < 2 powi (e + n + 1)"
      by (simp add: abs_mult two_powi_add mult.commute mult.left_commute)
  qed
  have en: "- 1022 \<le> e + n" using lo assms(5) by simp
  have q2: "(2::real) powi (e + n - 52) = 2 powi n * q"
    unfolding q_def by (rule two_powi_eq) simp
  have dv: "2 powi n * x / (2 powi n * q) = x / q" by simp
  have "\<bar>2 powi n * r\<bar> = 2 powi n * \<bar>r\<bar>" by (simp add: abs_mult)
  also have "\<dots> \<le> 2 powi n * 2 powi hi" using r'(2) rr pn by simp
  also have "\<dots> = 2 powi (hi + n)" by (simp add: two_powi_add)
  finally have "\<bar>2 powi n * r\<bar> \<le> 2 powi (hi + n)" .
  then have no: "\<not> overflowBound \<le> \<bar>2 powi n * r\<bar>"
    using below_overflow [of "hi + n" "2 powi n * r"] assms(6) by simp
  have "real_of_int (rne (2 powi n * x / 2 powi (e + n - 52))) * 2 powi (e + n - 52)
          = 2 powi n * r"
    by (simp only: q2 dv rq) simp
  then show ?thesis
    using fl_normal [OF b2 en] no by simp
qed

text \<open>A double of magnitude at least \<open>2^lo\<close> is an integer multiple of \<open>2^(lo - 52)\<close>.\<close>

lemma double_grid:
  assumes "fl a = Fin a" "2 powi lo \<le> \<bar>a\<bar>" "- 1022 \<le> lo"
  shows "\<exists>M::int. a = real_of_int M * 2 powi (lo - 52)"
proof -
  define e where "e = \<lfloor>log 2 \<bar>a\<bar>\<rfloor>"
  have anz: "a \<noteq> 0" using assms(2) by (rule powi_le_abs_nonzero)
  have lo: "lo \<le> e" unfolding e_def using assms(2) by (rule binade_ge)
  have bx: "binade a = e" using lo assms(3) by (simp add: binade_def e_def)
  have a: "a = real_of_int (rne (a / 2 powi (e - 52))) * 2 powi (e - 52)"
    using assms(1) anz by (simp add: fl_def Let_def bx split: if_splits)
  define j where "j = nat (e - lo)"
  have "e - 52 = (lo - 52) + int j" using lo by (simp add: j_def)
  then have "(2::real) powi (e - 52) = 2 powi (lo - 52) * 2 powi (int j)"
    by (rule two_powi_eq)
  then have pj: "(2::real) powi (e - 52) = 2 powi (lo - 52) * 2 ^ j"
    by simp
  define m where "m = rne (a / 2 powi (e - 52))"
  have "a = real_of_int m * 2 powi (e - 52)" using a by (simp only: m_def)
  also have "\<dots> = real_of_int m * (2 powi (lo - 52) * 2 ^ j)" by (simp only: pj)
  also have "\<dots> = real_of_int (m * 2 ^ j) * 2 powi (lo - 52)" by simp
  finally show ?thesis by blast
qed

lemma grid_difference:
  assumes "a = real_of_int M * g" "c = real_of_int N * g" "0 < g" "a \<noteq> c"
  shows "g \<le> \<bar>a - c\<bar>"
proof -
  have "a - c = real_of_int (M - N) * g" by (simp add: assms(1,2) algebra_simps)
  moreover have "M \<noteq> N" using assms by auto
  then have "1 \<le> \<bar>M - N\<bar>" by simp
  then have "1 \<le> \<bar>real_of_int (M - N)\<bar>" by (metis of_int_abs of_int_1_le_iff)
  then have "1 * g \<le> \<bar>real_of_int (M - N)\<bar> * g" using assms(3) by (simp only: mult_le_cancel_right) simp
  ultimately show ?thesis using assms(3) by (simp add: abs_mult)
qed

text \<open>Values that underflow to zero.\<close>

lemma fl_underflow:
  assumes "\<bar>x\<bar> < 2 powi (- 1075)"
  shows "fl x = Fin 0"
proof (cases "x = 0")
  case True
  then show ?thesis by simp
next
  case False
  have "\<lfloor>log 2 \<bar>x\<bar>\<rfloor> \<le> - 1075" using False assms by (intro binade_le) simp_all
  then have bx: "binade x = - 1022" by (simp add: binade_def)
  have "(2::real) powi (- 1075) * 2 = 2 powi (- 1074)"
    using two_powi_add [of "- 1075" 1] by simp
  then have "\<bar>x\<bar> * 2 < 2 powi (- 1074)" using assms by linarith
  then have "\<bar>x / 2 powi (- 1074)\<bar> < 1 / 2"
    by (simp add: abs_divide pos_divide_less_eq)
  then have "rne (x / 2 powi (- 1074)) = 0" by (intro rne_unique) simp
  then show ?thesis using False by (simp add: fl_def Let_def bx overflowBound_def)
qed

text \<open>Evaluation of \<open>fl\<close> at a concrete value: the binade and the nearest integer are given.\<close>

lemma rne_tie_even: "even m \<Longrightarrow> rne (real_of_int m + 1 / 2) = m"
proof -
  assume m: "even m"
  have "\<lfloor>real_of_int m + 1 / 2\<rfloor> = m" by (rule floor_unique) simp_all
  then show ?thesis using m by (simp add: rne_def Let_def)
qed

lemma fl_eq_rneI:
  assumes "2 powi e \<le> \<bar>x\<bar>" "\<bar>x\<bar> < 2 powi (e + 1)" "- 1022 \<le> e" "e \<le> 1022"
    and "rne (x / 2 powi (e - 52)) = m"
  shows "fl x = Fin (real_of_int m * 2 powi (e - 52))"
  using fl_normal_bounds [OF assms(1-4)] assms(5) by auto

lemma fl_eqI:
  assumes "2 powi e \<le> \<bar>x\<bar>" "\<bar>x\<bar> < 2 powi (e + 1)" "- 1022 \<le> e" "e \<le> 1022"
    and "\<bar>x / 2 powi (e - 52) - real_of_int m\<bar> < 1 / 2"
  shows "fl x = Fin (real_of_int m * 2 powi (e - 52))"
proof -
  obtain r where r: "fl x = Fin r" "r = real_of_int (rne (x / 2 powi (e - 52))) * 2 powi (e - 52)"
    using fl_normal_bounds [OF assms(1-4)] by blast
  have "rne (x / 2 powi (e - 52)) = m" using assms(5) by (rule rne_unique)
  then show ?thesis using r by simp
qed

text \<open>Small integers are doubles.\<close>

lemma fl_1 [simp]: "fl 1 = Fin 1"
  using fl_of_int [of 1] by simp

lemma fl_minus_1 [simp]: "fl (- 1) = Fin (- 1)"
  using fl_of_int [of "- 1"] by simp

lemma fl_numeral [simp]: "(numeral k :: int) < 2 ^ 53 \<Longrightarrow> fl (numeral k) = Fin (numeral k)"
  using fl_of_int [of "numeral k"] by simp

lemma fl_neg_numeral [simp]:
  "(numeral k :: int) < 2 ^ 53 \<Longrightarrow> fl (- numeral k) = Fin (- numeral k)"
  using fl_of_int [of "- numeral k"] by simp

lemma fl_of_nat: "n < 2 ^ 53 \<Longrightarrow> fl (real n) = Fin (real n)"
  using fl_of_int [of "int n"] by simp

text \<open>Fractions with a power of two as denominator are doubles.\<close>

lemma fl_dyadic_fraction:
  assumes "\<bar>m\<bar> < 2 ^ 53" "k \<le> 1074" "\<bar>real_of_int m\<bar> \<le> 2 ^ 1000"
  shows "fl (real_of_int m / 2 ^ k) = Fin (real_of_int m / 2 ^ k)"
proof -
  have x: "real_of_int m / 2 ^ k = real_of_int m * 2 powi (- int k)"
    by (simp add: power_int_minus field_simps)
  have "\<bar>real_of_int m / 2 ^ k\<bar> \<le> \<bar>real_of_int m\<bar>"
    by (simp add: abs_divide field_simps mult_le_cancel_left1)
  also have "\<dots> \<le> 2 powi 1000" using assms(3) by simp
  finally have "\<not> overflowBound \<le> \<bar>real_of_int m / 2 ^ k\<bar>"
    by (intro below_overflow [of 1000]) simp_all
  then show ?thesis
    using fl_dyadic [OF x assms(1)] assms(2) by simp
qed

text \<open>Signs.\<close>

lemma fl_nonnegNum: "0 \<le> x \<Longrightarrow> nonnegNum (fl x)"
  using fl_nonneg [of x] by auto

lemma nonnegNum_cases:
  assumes "nonnegNum v"
  obtains "v = PInf" | r where "v = Fin r" "0 \<le> r"
  using assms by (cases v) simp_all

section \<open>Properties of the number operations\<close>

lemma isFin_obtain: "isFin v \<Longrightarrow> \<exists>a. v = Fin a"
  by (cases v) simp_all

lemma jadd_NaN_right [simp]: "jadd a NaN = NaN"
  by (cases a) simp_all

lemma jpow2_nonneg: "v \<noteq> NaN \<Longrightarrow> nonnegNum (jpow2 v)"
  by (cases v) (simp_all add: fl_nonnegNum)

lemma jadd_nonneg: "nonnegNum a \<Longrightarrow> nonnegNum b \<Longrightarrow> nonnegNum (jadd a b)"
  by (cases a; cases b) (simp_all add: fl_nonnegNum)

lemma jsqrt_nonneg: "nonnegNum a \<Longrightarrow> nonnegNum (jsqrt a)"
  by (cases a) (simp_all add: fl_nonnegNum)

lemma jsub_finite: "isFin a \<Longrightarrow> isFin b \<Longrightarrow> jsub a b \<noteq> NaN"
  by (cases a; cases b) (simp_all add: jsub_def)

lemma jsub_same: "isFin a \<Longrightarrow> jsub a a = Fin 0"
  by (cases a) (simp_all add: jsub_def)

section \<open>Scaling by a power of two\<close>

lemma inRange_0 [simp]: "inRange lo hi 0"
  by (simp add: inRange_def)

lemma inRange_mono:
  assumes "inRange lo hi x" "lo' \<le> lo" "hi \<le> hi'"
  shows "inRange lo' hi' x"
proof (cases "x = 0")
  case True
  then show ?thesis by simp
next
  case False
  then have "2 powi lo \<le> \<bar>x\<bar>" "\<bar>x\<bar> \<le> 2 powi hi"
    using assms(1) by (simp_all add: inRange_def)
  then have "2 powi lo' \<le> \<bar>x\<bar>" "\<bar>x\<bar> \<le> 2 powi hi'"
    using two_powi_mono [OF assms(2)] two_powi_mono [OF assms(3)] by linarith+
  then show ?thesis by (simp add: inRange_def)
qed

lemma fl_scale_range:
  assumes "inRange lo hi x" "- 1022 \<le> lo" "hi \<le> 1023" "- 1022 \<le> lo + n" "hi + n \<le> 1023"
  shows "\<exists>r. fl x = Fin r \<and> fl (2 powi n * x) = Fin (2 powi n * r) \<and> inRange lo hi r
             \<and> (0 \<le> x \<longrightarrow> 0 \<le> r) \<and> (x = 0 \<longleftrightarrow> r = 0)"
proof (cases "x = 0")
  case True
  then show ?thesis by simp
next
  case False
  then have b: "2 powi lo \<le> \<bar>x\<bar>" "\<bar>x\<bar> \<le> 2 powi hi"
    using assms(1) by (simp_all add: inRange_def)
  obtain r where r: "fl x = Fin r" "2 powi lo \<le> \<bar>r\<bar>" "\<bar>r\<bar> \<le> 2 powi hi" "0 < x \<longleftrightarrow> 0 < r"
    using fl_range [OF b assms(2,3)] by blast
  have "fl (2 powi n * x) = Fin (2 powi n * r)"
    using b assms(2-5) r(1) by (rule fl_scale)
  moreover have "r \<noteq> 0" using r(2) by (rule powi_le_abs_nonzero)
  moreover have "inRange lo hi r" using r(2,3) by (simp add: inRange_def)
  moreover have "0 \<le> x \<longrightarrow> 0 \<le> r" using r(4) False by auto
  ultimately show ?thesis using r(1) False by blast
qed

lemma inRange_square:
  assumes "inRange lo hi x"
  shows "inRange (2 * lo) (2 * hi) (x * x)"
proof (cases "x = 0")
  case True
  then show ?thesis by simp
next
  case False
  then have b: "2 powi lo \<le> \<bar>x\<bar>" "\<bar>x\<bar> \<le> 2 powi hi"
    using assms by (simp_all add: inRange_def)
  have "2 powi lo * 2 powi lo \<le> \<bar>x\<bar> * \<bar>x\<bar>"
    using b(1) by (intro mult_mono) (simp_all add: less_imp_le)
  moreover have "\<bar>x\<bar> * \<bar>x\<bar> \<le> 2 powi hi * 2 powi hi"
    using b(2) by (intro mult_mono) simp_all
  moreover have "(2::real) powi (2 * lo) = 2 powi lo * 2 powi lo"
    by (rule two_powi_eq) simp
  moreover have "(2::real) powi (2 * hi) = 2 powi hi * 2 powi hi"
    by (rule two_powi_eq) simp
  ultimately show ?thesis by (simp add: inRange_def abs_mult)
qed

lemma inRange_add:
  assumes "inRange lo hi x" "inRange lo hi y" "0 \<le> x" "0 \<le> y"
  shows "inRange lo (hi + 1) (x + y)"
proof (cases "x + y = 0")
  case True
  then show ?thesis by simp
next
  case False
  have h: "(2::real) powi (hi + 1) = 2 powi hi * 2"
    using two_powi_eq [of "hi + 1" hi 1] by simp
  have ub: "x \<le> 2 powi hi" "y \<le> 2 powi hi"
    using assms two_powi_pos [of hi] by (auto simp: inRange_def less_imp_le)
  have "2 powi lo \<le> x \<or> 2 powi lo \<le> y"
    using assms False by (auto simp: inRange_def)
  then have "2 powi lo \<le> x + y" using assms(3,4) by linarith
  then show ?thesis using ub assms(3,4) h by (simp add: inRange_def)
qed

lemma inRange_sqrt:
  assumes "inRange (2 * lo) (2 * hi) x" "0 \<le> x"
  shows "inRange lo hi (sqrt x)"
proof (cases "x = 0")
  case True
  then show ?thesis by simp
next
  case False
  then have b: "2 powi (2 * lo) \<le> x" "x \<le> 2 powi (2 * hi)"
    using assms by (simp_all add: inRange_def)
  have sq: "\<And>k. sqrt (2 powi (2 * k)) = 2 powi k"
  proof -
    fix k :: int
    have "(2::real) powi (2 * k) = 2 powi k * 2 powi k" by (rule two_powi_eq) simp
    then show "sqrt (2 powi (2 * k)) = 2 powi k" by (simp add: real_sqrt_mult)
  qed
  have "sqrt (2 powi (2 * lo)) \<le> sqrt x" "sqrt x \<le> sqrt (2 powi (2 * hi))"
    using b by simp_all
  then show ?thesis using assms(2) by (simp add: sq inRange_def)
qed

lemma inRange_double:
  assumes "inRange lo hi x"
  shows "inRange (lo + 1) (hi + 1) (2 * x)"
proof -
  have "(2::real) powi (lo + 1) = 2 * 2 powi lo" "(2::real) powi (hi + 1) = 2 * 2 powi hi"
    using two_powi_eq [of "lo + 1" 1 lo] two_powi_eq [of "hi + 1" 1 hi] by simp_all
  then show ?thesis using assms by (auto simp: inRange_def abs_mult)
qed

text \<open>The difference of two safe coordinates is zero or at least \<open>2^-252\<close>.\<close>

lemma safe_grid:
  assumes "isDouble a" "inRange (- 200) 200 a"
  shows "\<exists>M::int. a = real_of_int M * 2 powi (- 252)"
proof (cases "a = 0")
  case True
  then have "a = real_of_int 0 * 2 powi (- 252)" by simp
  then show ?thesis by blast
next
  case False
  then have "2 powi (- 200) \<le> \<bar>a\<bar>" using assms(2) by (simp add: inRange_def)
  then show ?thesis
    using double_grid [of a "- 200"] assms(1) by (simp add: isDouble_def)
qed

lemma safe_difference:
  assumes "isDouble a" "inRange (- 200) 200 a" "isDouble c" "inRange (- 200) 200 c"
  shows "inRange (- 252) 201 (a - c)"
proof (cases "a = c")
  case True
  then show ?thesis by simp
next
  case False
  obtain M N :: int where "a = real_of_int M * 2 powi (- 252)" "c = real_of_int N * 2 powi (- 252)"
    using safe_grid [OF assms(1,2)] safe_grid [OF assms(3,4)] by blast
  then have lo: "2 powi (- 252) \<le> \<bar>a - c\<bar>"
    using False by (intro grid_difference [of a M _ c N]) simp_all
  have "\<bar>a\<bar> \<le> 2 powi 200" "\<bar>c\<bar> \<le> 2 powi 200"
    using assms(2,4) two_powi_pos [of 200] by (auto simp: inRange_def less_imp_le)
  moreover have "(2::real) powi 201 = 2 powi 200 + 2 powi 200"
    using two_powi_eq [of 201 200 1] by simp
  ultimately have "\<bar>a - c\<bar> \<le> 2 powi 201" by linarith
  then show ?thesis using lo by (simp add: inRange_def)
qed

section \<open>Properties of the geometry extractor\<close>

lemma finitePoint_coords:
  assumes "finitePoint p"
  obtains a b where "px p = Fin a" and "py p = Fin b"
  using assms isFin_obtain unfolding finitePoint_def by blast

text \<open>A distance of finite points is never negative and never NaN; of a point to itself it is 0.\<close>

lemma pointDistance_nonneg:
  assumes "i < length pts" "j < length pts" "finitePoint (pts ! i)" "finitePoint (pts ! j)"
  shows "\<exists>v. pointDistance pts i j = Inr v \<and> nonnegNum v"
proof -
  have "jsub (px (pts ! i)) (px (pts ! j)) \<noteq> NaN" "jsub (py (pts ! i)) (py (pts ! j)) \<noteq> NaN"
    using assms(3,4) by (simp_all add: finitePoint_def jsub_finite)
  then have "nonnegNum (jsqrt (jadd (jpow2 (jsub (px (pts ! i)) (px (pts ! j))))
                                    (jpow2 (jsub (py (pts ! i)) (py (pts ! j))))))"
    by (intro jsqrt_nonneg jadd_nonneg jpow2_nonneg)
  then show ?thesis using assms(1,2) by (simp add: pointDistance_def)
qed

lemma pointDistance_same:
  assumes "i < length pts" "j < length pts" "finitePoint (pts ! i)" "pts ! i = pts ! j"
  shows "pointDistance pts i j = Inr (Fin 0)"
proof -
  have "jsub (px (pts ! i)) (px (pts ! j)) = Fin 0" "jsub (py (pts ! i)) (py (pts ! j)) = Fin 0"
    using assms(3,4) by (simp_all add: finitePoint_def jsub_same)
  then show ?thesis using assms(1,2) by (simp add: pointDistance_def)
qed

lemma ratio_zero_width:
  assumes "nonnegNum v1" "nonnegNum v2"
  shows "jdiv (jadd v1 v2) (jmul (Fin 2) (Fin 0)) = PInf
       \<or> jdiv (jadd v1 v2) (jmul (Fin 2) (Fin 0)) = NaN"
proof -
  have "nonnegNum (jadd v1 v2)" using assms by (rule jadd_nonneg)
  then show ?thesis by (cases "jadd v1 v2" rule: nonnegNum_cases) auto
qed

lemma eye_short_is_zero: "length eyePoints < 6 \<Longrightarrow> calculateEyeAspectRatio eyePoints = Inr (Fin 0)"
  by (simp add: calculateEyeAspectRatio_def)

lemma mouth_short_is_zero:
  "length mouthPoints < 6 \<Longrightarrow> calculateMouthAspectRatio mouthPoints = Inr (Fin 0)"
  by (simp add: calculateMouthAspectRatio_def)

lemma mouth_six_or_seven_throws:
  "length mouthPoints = 6 \<or> length mouthPoints = 7 \<Longrightarrow>
   calculateMouthAspectRatio mouthPoints = Inl TypeError"
  by (auto simp add: calculateMouthAspectRatio_def pointDistance_def)

lemma eye_never_throws: "\<exists>v. calculateEyeAspectRatio eyePoints = Inr v"
  by (simp add: calculateEyeAspectRatio_def pointDistance_def)

lemma eye_zero_width:
  assumes "6 \<le> length pts" "\<forall>p\<in>set pts. finitePoint p" "pts ! 0 = pts ! 3"
  shows "calculateEyeAspectRatio pts = Inr PInf \<or> calculateEyeAspectRatio pts = Inr NaN"
proof -
  have f: "\<And>i. i < 6 \<Longrightarrow> i < length pts \<and> finitePoint (pts ! i)"
    using assms(1,2) by simp
  obtain v1 where v1: "pointDistance pts 1 5 = Inr v1" "nonnegNum v1"
    using pointDistance_nonneg [of 1 pts 5] f by auto
  obtain v2 where v2: "pointDistance pts 2 4 = Inr v2" "nonnegNum v2"
    using pointDistance_nonneg [of 2 pts 4] f by auto
  have h: "pointDistance pts 0 3 = Inr (Fin 0)"
    using pointDistance_same [of 0 pts 3] f [of 0] f [of 3] assms(3) by simp
  have "calculateEyeAspectRatio pts = Inr (jdiv (jadd v1 v2) (jmul (Fin 2) (Fin 0)))"
    using assms(1) v1(1) v2(1) h
    by (simp add: calculateEyeAspectRatio_def del: jdiv.simps jadd.simps jmul.simps)
  then show ?thesis using ratio_zero_width [OF v1(2) v2(2)] by auto
qed

lemma mouth_zero_width:
  assumes "8 \<le> length pts" "\<forall>p\<in>set pts. finitePoint p" "pts ! 0 = pts ! 4"
  shows "calculateMouthAspectRatio pts = Inr PInf \<or> calculateMouthAspectRatio pts = Inr NaN"
proof -
  have f: "\<And>i. i < 8 \<Longrightarrow> i < length pts \<and> finitePoint (pts ! i)"
    using assms(1,2) by simp
  obtain v1 where v1: "pointDistance pts 2 6 = Inr v1" "nonnegNum v1"
    using pointDistance_nonneg [of 2 pts 6] f by auto
  obtain v2 where v2: "pointDistance pts 3 7 = Inr v2" "nonnegNum v2"
    using pointDistance_nonneg [of 3 pts 7] f by auto
  have h: "pointDistance pts 0 4 = Inr (Fin 0)"
    using pointDistance_same [of 0 pts 4] f [of 0] f [of 4] assms(3) by simp
  have "calculateMouthAspectRatio pts = Inr (jdiv (jadd v1 v2) (jmul (Fin 2) (Fin 0)))"
    using assms(1) v1(1) v2(1) h
    by (simp add: calculateMouthAspectRatio_def del: jdiv.simps jadd.simps jmul.simps)
  then show ?thesis using ratio_zero_width [OF v1(2) v2(2)] by auto
qed

text \<open>
  C3. Fewer than 6 eye points, or fewer than 8 mouth points, give exactly 0 and no crash.
  The eye half holds (\<open>eye_short_is_zero\<close>), and so does the mouth half below 6 points
  (\<open>mouth_short_is_zero\<close>). A mouth of 6 or 7 points passes the guard of line 508 and throws
  at index 6 or 7: here for six and for seven points.
\<close>

theorem C3_mouth_of_six_or_seven_points_throws:
  "calculateMouthAspectRatio [pt 0 0, pt 1 1, pt 2 2, pt 3 1, pt 4 0, pt 2 (- 1)] = Inl TypeError
   \<and> calculateMouthAspectRatio [pt 0 0, pt 1 1, pt 2 2, pt 3 1, pt 4 0, pt 3 (- 1), pt 2 (- 1)]
       = Inl TypeError"
  by (simp add: calculateMouthAspectRatio_def pointDistance_def)

text \<open>
  C4, as stated: a point set whose horizontal reference distance is zero gives 0.
  It fails for an eye with \<open>p0 = p3\<close> and open lids: the division by zero gives
  \<open>+Infinity\<close>.
\<close>

theorem C4_counterexample:
  "calculateEyeAspectRatio [pt 1 1, pt 1 2, pt 2 2, pt 1 1, pt 2 0, pt 1 0] = Inr PInf
   \<and> calculateEyeAspectRatio [pt 1 1, pt 1 2, pt 2 2, pt 1 1, pt 2 0, pt 1 0] \<noteq> Inr (Fin 0)"
  by (simp add: calculateEyeAspectRatio_def pointDistance_def pt_def jsub_def)

text \<open>
  C4, amended: neither function guards the denominator. For finite points with a zero
  horizontal reference distance (\<open>p0 = p3\<close> of at least 6 eye points, \<open>p0 = p4\<close> of at least
  8 mouth points) the result is \<open>+Infinity\<close> or NaN; it is never 0.
\<close>

theorem C4_zero_width_gives_infinity_or_nan:
  "(6 \<le> length eyePoints \<and> (\<forall>p\<in>set eyePoints. finitePoint p) \<and> eyePoints ! 0 = eyePoints ! 3
      \<longrightarrow> (calculateEyeAspectRatio eyePoints = Inr PInf
           \<or> calculateEyeAspectRatio eyePoints = Inr NaN)
          \<and> calculateEyeAspectRatio eyePoints \<noteq> Inr (Fin 0))
   \<and> (8 \<le> length mouthPoints \<and> (\<forall>p\<in>set mouthPoints. finitePoint p)
        \<and> mouthPoints ! 0 = mouthPoints ! 4
      \<longrightarrow> (calculateMouthAspectRatio mouthPoints = Inr PInf
           \<or> calculateMouthAspectRatio mouthPoints = Inr NaN)
          \<and> calculateMouthAspectRatio mouthPoints \<noteq> Inr (Fin 0))"
  using eye_zero_width [of eyePoints] mouth_zero_width [of mouthPoints] by auto

theorem C4_zero_width_witness:
  "calculateEyeAspectRatio [pt 1 1, pt 1 2, pt 2 2, pt 1 1, pt 2 0, pt 1 0] = Inr PInf
   \<and> calculateMouthAspectRatio [pt 3 3, pt 0 0, pt 1 1, pt 2 5, pt 3 3, pt 0 0, pt 1 1, pt 2 5]
       = Inr NaN"
  using C4_zero_width_gives_infinity_or_nan
    [of "[pt 1 1, pt 1 2, pt 2 2, pt 1 1, pt 2 0, pt 1 0]"
        "[pt 3 3, pt 0 0, pt 1 1, pt 2 5, pt 3 3, pt 0 0, pt 1 1, pt 2 5]"]
  by (simp add: finitePoint_def pt_def calculateEyeAspectRatio_def calculateMouthAspectRatio_def
        pointDistance_def jsub_def)

section \<open>Scaling of an eye\<close>

lemma safeCoordinate_obtain:
  assumes "safeCoordinate v"
  obtains a where "v = Fin a" "isDouble a" "inRange (- 200) 200 a"
  using assms by (cases v) simp_all

text \<open>Scaling a safe coordinate by \<open>2^n\<close> is exact.\<close>

lemma scale_coordinate:
  assumes "- 100 \<le> n" "n \<le> 100" "isDouble a" "inRange (- 200) 200 a"
  shows "jmul (Fin (2 powi n)) (Fin a) = Fin (2 powi n * a)"
proof -
  obtain r where "fl a = Fin r" "fl (2 powi n * a) = Fin (2 powi n * r)"
    using fl_scale_range [OF assms(4), of n] assms(1,2) by auto
  then show ?thesis using assms(3) by (simp add: isDouble_def)
qed

text \<open>
  One squared coordinate difference, \<open>Math.pow(a - c, 2)\<close>, of the original and of the
  scaled coordinates.
\<close>

lemma squared_difference_scale:
  assumes n: "- 100 \<le> n" "n \<le> 100"
    and a: "isDouble a" "inRange (- 200) 200 a" and c: "isDouble c" "inRange (- 200) 200 c"
  shows "\<exists>p. jpow2 (jsub (Fin a) (Fin c)) = Fin p
           \<and> jpow2 (jsub (Fin (2 powi n * a)) (Fin (2 powi n * c))) = Fin (2 powi (2 * n) * p)
           \<and> 0 \<le> p \<and> inRange (- 504) 402 p"
proof -
  have d: "inRange (- 252) 201 (a - c)" using a c by (rule safe_difference)
  obtain r where r: "fl (a - c) = Fin r" "fl (2 powi n * (a - c)) = Fin (2 powi n * r)"
      "inRange (- 252) 201 r"
    using fl_scale_range [OF d, of n] n by auto
  have sq: "inRange (- 504) 402 (r * r)" using inRange_square [OF r(3)] by simp
  obtain p where p: "fl (r * r) = Fin p" "fl (2 powi (2 * n) * (r * r)) = Fin (2 powi (2 * n) * p)"
      "inRange (- 504) 402 p" "0 \<le> p"
    using fl_scale_range [OF sq, of "2 * n"] n by auto
  have k2: "(2::real) powi (2 * n) = 2 powi n * 2 powi n" by (rule two_powi_eq) simp
  have "2 powi n * a - 2 powi n * c = 2 powi n * (a - c)" by (simp add: algebra_simps)
  then have "jsub (Fin (2 powi n * a)) (Fin (2 powi n * c)) = Fin (2 powi n * r)"
    using r(2) by (simp add: jsub_def)
  moreover have "2 powi n * r * (2 powi n * r) = 2 powi (2 * n) * (r * r)"
    by (subst k2) (simp only: mult_ac)
  ultimately have "jpow2 (jsub (Fin (2 powi n * a)) (Fin (2 powi n * c)))
                   = Fin (2 powi (2 * n) * p)"
    using p(2) by (simp only: jpow2.simps)
  moreover have "jpow2 (jsub (Fin a) (Fin c)) = Fin p"
    using r(1) p(1) by (simp add: jsub_def)
  ultimately show ?thesis using p(3,4) by blast
qed

text \<open>One distance, of the original and of the scaled points.\<close>

lemma distance_value_scale:
  assumes n: "- 100 \<le> n" "n \<le> 100"
    and "isDouble a" "inRange (- 200) 200 a" "isDouble c" "inRange (- 200) 200 c"
    and "isDouble b" "inRange (- 200) 200 b" "isDouble d" "inRange (- 200) 200 d"
  shows "\<exists>v. jsqrt (jadd (jpow2 (jsub (Fin a) (Fin c))) (jpow2 (jsub (Fin b) (Fin d)))) = Fin v
           \<and> jsqrt (jadd (jpow2 (jsub (Fin (2 powi n * a)) (Fin (2 powi n * c))))
                         (jpow2 (jsub (Fin (2 powi n * b)) (Fin (2 powi n * d)))))
               = Fin (2 powi n * v)
           \<and> 0 \<le> v \<and> inRange (- 252) 202 v"
proof -
  obtain p where p: "jpow2 (jsub (Fin a) (Fin c)) = Fin p"
      "jpow2 (jsub (Fin (2 powi n * a)) (Fin (2 powi n * c))) = Fin (2 powi (2 * n) * p)"
      "0 \<le> p" "inRange (- 504) 402 p"
    using squared_difference_scale [OF n assms(3-6)] by blast
  obtain q where q: "jpow2 (jsub (Fin b) (Fin d)) = Fin q"
      "jpow2 (jsub (Fin (2 powi n * b)) (Fin (2 powi n * d))) = Fin (2 powi (2 * n) * q)"
      "0 \<le> q" "inRange (- 504) 402 q"
    using squared_difference_scale [OF n assms(7-10)] by blast
  have "inRange (- 504) (402 + 1) (p + q)" using p(4) q(4) p(3) q(3) by (rule inRange_add)
  then have sm: "inRange (- 504) 404 (p + q)" by (rule inRange_mono) simp_all
  obtain s where s: "fl (p + q) = Fin s" "fl (2 powi (2 * n) * (p + q)) = Fin (2 powi (2 * n) * s)"
      "inRange (- 504) 404 s" "0 \<le> s"
    using fl_scale_range [OF sm, of "2 * n"] n p(3) q(3) by auto
  have "inRange (2 * (- 252)) (2 * 202) s" using s(3) by simp
  then have rt: "inRange (- 252) 202 (sqrt s)" using s(4) by (rule inRange_sqrt)
  obtain v where v: "fl (sqrt s) = Fin v" "fl (2 powi n * sqrt s) = Fin (2 powi n * v)"
      "inRange (- 252) 202 v" "0 \<le> v"
    using fl_scale_range [OF rt, of n] n s(4) by auto
  have k2: "(2::real) powi (2 * n) = 2 powi n * 2 powi n" by (rule two_powi_eq) simp
  have "sqrt (2 powi (2 * n) * s) = 2 powi n * sqrt s"
    by (simp add: k2 real_sqrt_mult)
  then have scaled: "fl (sqrt (2 powi (2 * n) * s)) = Fin (2 powi n * v)"
    using v(2) by simp
  have "2 powi (2 * n) * p + 2 powi (2 * n) * q = 2 powi (2 * n) * (p + q)"
    by (simp add: algebra_simps)
  then have "jadd (Fin (2 powi (2 * n) * p)) (Fin (2 powi (2 * n) * q)) = Fin (2 powi (2 * n) * s)"
    using s(2) by simp
  moreover have "0 \<le> 2 powi (2 * n) * s" using s(4) by simp
  ultimately have 2: "jsqrt (jadd (Fin (2 powi (2 * n) * p)) (Fin (2 powi (2 * n) * q)))
                      = Fin (2 powi n * v)"
    using scaled by simp
  have 1: "jsqrt (jadd (Fin p) (Fin q)) = Fin v"
    using s(1,4) v(1) by simp
  show ?thesis
    unfolding p(1,2) q(1,2) using 1 2 v(3,4) by blast
qed

lemma pointDistance_scale:
  assumes n: "- 100 \<le> n" "n \<le> 100" and ij: "i < length pts" "j < length pts"
    and safe: "safePoint (pts ! i)" "safePoint (pts ! j)"
  shows "\<exists>v. pointDistance pts i j = Inr (Fin v)
           \<and> pointDistance (map (scalePoint (Fin (2 powi n))) pts) i j = Inr (Fin (2 powi n * v))
           \<and> 0 \<le> v \<and> inRange (- 252) 202 v"
proof -
  obtain a where a: "px (pts ! i) = Fin a" "isDouble a" "inRange (- 200) 200 a"
    using safe(1) unfolding safePoint_def by (auto elim: safeCoordinate_obtain)
  obtain b where b: "py (pts ! i) = Fin b" "isDouble b" "inRange (- 200) 200 b"
    using safe(1) unfolding safePoint_def by (auto elim: safeCoordinate_obtain)
  obtain c where c: "px (pts ! j) = Fin c" "isDouble c" "inRange (- 200) 200 c"
    using safe(2) unfolding safePoint_def by (auto elim: safeCoordinate_obtain)
  obtain d where d: "py (pts ! j) = Fin d" "isDouble d" "inRange (- 200) 200 d"
    using safe(2) unfolding safePoint_def by (auto elim: safeCoordinate_obtain)
  have sc: "px (scalePoint (Fin (2 powi n)) (pts ! i)) = Fin (2 powi n * a)"
           "py (scalePoint (Fin (2 powi n)) (pts ! i)) = Fin (2 powi n * b)"
           "px (scalePoint (Fin (2 powi n)) (pts ! j)) = Fin (2 powi n * c)"
           "py (scalePoint (Fin (2 powi n)) (pts ! j)) = Fin (2 powi n * d)"
    unfolding scalePoint_def a(1) b(1) c(1) d(1)
    using scale_coordinate [OF n a(2,3)] scale_coordinate [OF n b(2,3)]
      scale_coordinate [OF n c(2,3)] scale_coordinate [OF n d(2,3)]
    by simp_all
  have 1: "pointDistance pts i j
           = Inr (jsqrt (jadd (jpow2 (jsub (Fin a) (Fin c))) (jpow2 (jsub (Fin b) (Fin d)))))"
    using ij by (simp add: pointDistance_def a(1) b(1) c(1) d(1))
  have 2: "pointDistance (map (scalePoint (Fin (2 powi n))) pts) i j
           = Inr (jsqrt (jadd (jpow2 (jsub (Fin (2 powi n * a)) (Fin (2 powi n * c))))
                              (jpow2 (jsub (Fin (2 powi n * b)) (Fin (2 powi n * d))))))"
    using ij by (simp add: pointDistance_def sc)
  show ?thesis
    unfolding 1 2
    using distance_value_scale [OF n a(2,3) c(2,3) b(2,3) d(2,3)] by simp
qed

text \<open>The ratio \<open>(v1 + v2) / (2.0 * h)\<close> of the original and of the scaled distances.\<close>

lemma ratio_scale:
  assumes n: "- 100 \<le> n" "n \<le> 100"
    and "0 \<le> v1" "inRange (- 252) 202 v1" "0 \<le> v2" "inRange (- 252) 202 v2"
    and "0 \<le> h" "inRange (- 252) 202 h"
  shows "jdiv (jadd (Fin (2 powi n * v1)) (Fin (2 powi n * v2))) (jmul (Fin 2) (Fin (2 powi n * h)))
       = jdiv (jadd (Fin v1) (Fin v2)) (jmul (Fin 2) (Fin h))"
proof -
  have "inRange (- 252) (202 + 1) (v1 + v2)" using assms(4,6,3,5) by (rule inRange_add)
  then have sm: "inRange (- 252) 203 (v1 + v2)" by simp
  obtain s where s: "fl (v1 + v2) = Fin s" "fl (2 powi n * (v1 + v2)) = Fin (2 powi n * s)"
      "0 \<le> s"
    using fl_scale_range [OF sm, of n] n assms(3,5) by auto
  have "inRange (- 252 + 1) (202 + 1) (2 * h)" using assms(8) by (rule inRange_double)
  then have db: "inRange (- 251) 203 (2 * h)" by simp
  obtain g where g: "fl (2 * h) = Fin g" "fl (2 powi n * (2 * h)) = Fin (2 powi n * g)" "0 \<le> g"
    using fl_scale_range [OF db, of n] n assms(7) by auto
  have "2 powi n * v1 + 2 powi n * v2 = 2 powi n * (v1 + v2)" by (simp add: algebra_simps)
  then have num: "jadd (Fin (2 powi n * v1)) (Fin (2 powi n * v2)) = Fin (2 powi n * s)"
    using s(2) by simp
  have "2 * (2 powi n * h) = 2 powi n * (2 * h)" by simp
  then have den: "jmul (Fin 2) (Fin (2 powi n * h)) = Fin (2 powi n * g)"
    using g(2) by (simp only: jmul.simps)
  have "jdiv (Fin (2 powi n * s)) (Fin (2 powi n * g)) = jdiv (Fin s) (Fin g)"
    using s(3) by (simp add: zero_less_mult_iff)
  then show ?thesis
    unfolding num den using s(1) g(1) by simp
qed

lemma eye_scale:
  assumes n: "- 100 \<le> n" "n \<le> 100" and safe: "\<forall>p\<in>set pts. safePoint p"
  shows "calculateEyeAspectRatio (map (scalePoint (Fin (2 powi n))) pts)
         = calculateEyeAspectRatio pts"
proof (cases "length pts < 6")
  case True
  then show ?thesis by (simp add: calculateEyeAspectRatio_def)
next
  case False
  then have f: "\<And>i. i < 6 \<Longrightarrow> i < length pts \<and> safePoint (pts ! i)"
    using safe by simp
  obtain v1 where v1: "pointDistance pts 1 5 = Inr (Fin v1)"
      "pointDistance (map (scalePoint (Fin (2 powi n))) pts) 1 5 = Inr (Fin (2 powi n * v1))"
      "0 \<le> v1" "inRange (- 252) 202 v1"
    using pointDistance_scale [OF n, of 1 pts 5] f by auto
  obtain v2 where v2: "pointDistance pts 2 4 = Inr (Fin v2)"
      "pointDistance (map (scalePoint (Fin (2 powi n))) pts) 2 4 = Inr (Fin (2 powi n * v2))"
      "0 \<le> v2" "inRange (- 252) 202 v2"
    using pointDistance_scale [OF n, of 2 pts 4] f by auto
  obtain h where h: "pointDistance pts 0 3 = Inr (Fin h)"
      "pointDistance (map (scalePoint (Fin (2 powi n))) pts) 0 3 = Inr (Fin (2 powi n * h))"
      "0 \<le> h" "inRange (- 252) 202 h"
    using pointDistance_scale [OF n, of 0 pts 3] f [of 0] f [of 3] by auto
  show ?thesis
    using False ratio_scale [OF n v1(3,4) v2(3,4) h(3,4)] v1(1,2) v2(1,2) h(1,2)
    by (simp add: calculateEyeAspectRatio_def del: jdiv.simps jadd.simps jmul.simps)
qed

text \<open>
  The eye of the example below: lids 4 and 0 units apart at width 8. Its distances are
  \<open>sqrt 32\<close>, 0 and 8; those of the eye three times as large are \<open>sqrt 288\<close>, 0 and 24.
\<close>

lemma fl_sqrt_32: "fl (sqrt 32) = Fin (6369051672525773 / 2 ^ 50)"
proof -
  have lo: "(6369051672525773 - 1/2) / 2 ^ 50 < sqrt 32"
    by (rule real_less_rsqrt) (simp add: power2_eq_square)
  have hi: "sqrt 32 < (6369051672525773 + 1/2) / 2 ^ 50"
    by (rule real_less_lsqrt) (simp_all add: power2_eq_square)
  have "fl (sqrt 32) = Fin (real_of_int 6369051672525773 * 2 powi (2 - 52))"
  proof (rule fl_eqI)
    show "2 powi 2 \<le> \<bar>sqrt 32\<bar>" using lo by simp
    show "\<bar>sqrt 32\<bar> < 2 powi (2 + 1)" using hi by simp
    show "\<bar>sqrt 32 / 2 powi (2 - 52) - real_of_int 6369051672525773\<bar> < 1 / 2"
      using lo hi by (simp add: power_int_minus field_simps abs_if)
  qed simp_all
  then show ?thesis by (simp add: power_int_minus field_simps)
qed

lemma fl_sqrt_288: "fl (sqrt 288) = Fin (4776788754394329 / 2 ^ 48)"
proof -
  have lo: "(4776788754394329 - 1/2) / 2 ^ 48 < sqrt 288"
    by (rule real_less_rsqrt) (simp add: power2_eq_square)
  have hi: "sqrt 288 < (4776788754394329 + 1/2) / 2 ^ 48"
    by (rule real_less_lsqrt) (simp_all add: power2_eq_square)
  have "fl (sqrt 288) = Fin (real_of_int 4776788754394329 * 2 powi (4 - 52))"
  proof (rule fl_eqI)
    show "2 powi 4 \<le> \<bar>sqrt 288\<bar>" using lo by simp
    show "\<bar>sqrt 288\<bar> < 2 powi (4 + 1)" using hi by simp
    show "\<bar>sqrt 288 / 2 powi (4 - 52) - real_of_int 4776788754394329\<bar> < 1 / 2"
      using lo hi by (simp add: power_int_minus field_simps abs_if)
  qed simp_all
  then show ?thesis by (simp add: power_int_minus field_simps)
qed

lemma sqrt_64: "sqrt 64 = 8"
  by (rule real_sqrt_unique) simp_all

lemma sqrt_576: "sqrt 576 = 24"
  by (rule real_sqrt_unique) simp_all

lemma slantedEye_ratio:
  "calculateEyeAspectRatio slantedEye = Inr (Fin (6369051672525773 / 2 ^ 54))"
proof -
  have d1: "fl (6369051672525773 / 2 ^ 50) = Fin (6369051672525773 / 2 ^ 50)"
    using fl_dyadic_fraction [of 6369051672525773 50] by simp
  have d2: "fl (6369051672525773 / 2 ^ 54) = Fin (6369051672525773 / 2 ^ 54)"
    using fl_dyadic_fraction [of 6369051672525773 54] by simp
  show ?thesis
    using d1 d2
    by (simp add: slantedEye_def calculateEyeAspectRatio_def pointDistance_def pt_def jsub_def
          fl_sqrt_32 sqrt_64)
qed

lemma slantedEye_tripled_ratio:
  "calculateEyeAspectRatio (map (scalePoint (Fin 3)) slantedEye) = Inr (Fin (6369051672525772 / 2 ^ 54))"
proof -
  have d1: "fl (4776788754394329 / 2 ^ 48) = Fin (4776788754394329 / 2 ^ 48)"
    using fl_dyadic_fraction [of 4776788754394329 48] by simp
  have d2: "fl (6369051672525772 / 2 ^ 54) = Fin (6369051672525772 / 2 ^ 54)"
    using fl_dyadic_fraction [of 6369051672525772 54] by simp
  show ?thesis
    using d1 d2
    by (simp add: slantedEye_def calculateEyeAspectRatio_def pointDistance_def pt_def jsub_def scalePoint_def
          fl_sqrt_288 sqrt_576)
qed

lemma slantedEye_safe: "list_all safePoint slantedEye"
  by (simp add: slantedEye_def safePoint_def pt_def isDouble_def inRange_def)

text \<open>
  C9, as stated: scaling every point of a 6-point eye with nonzero horizontal distance by
  a factor \<open>k > 0\<close> leaves the ratio unchanged. It fails for \<open>k = 3\<close> on the eye
  \<open>(0,12) (4,12) (8,8) (0,4) (8,8) (8,8)\<close>, of width 8: the ratio is
  \<open>fl (sqrt 32) / 16 = 6369051672525773 / 2^54\<close> (0.3535533905932738), and of the tripled
  eye \<open>fl (fl (sqrt 288) / 48) = 6369051672525772 / 2^54\<close> (0.35355339059327373), because
  the rounded square root of 288 is not three times the rounded square root of 32.
\<close>

theorem C9_counterexample:
  "length slantedEye = 6
   \<and> list_all safePoint slantedEye
   \<and> isDouble 3 \<and> jlt (Fin 0) (Fin 3)
   \<and> pointDistance slantedEye 0 3 = Inr (Fin 8)
   \<and> calculateEyeAspectRatio slantedEye = Inr (Fin (6369051672525773 / 2 ^ 54))
   \<and> calculateEyeAspectRatio (map (scalePoint (Fin 3)) slantedEye)
       = Inr (Fin (6369051672525772 / 2 ^ 54))
   \<and> calculateEyeAspectRatio (map (scalePoint (Fin 3)) slantedEye)
       \<noteq> calculateEyeAspectRatio slantedEye"
proof -
  have "pointDistance slantedEye 0 3 = Inr (Fin 8)"
    by (simp add: slantedEye_def pointDistance_def pt_def jsub_def sqrt_64)
  moreover have "length slantedEye = 6" "isDouble 3"
    by (simp_all add: slantedEye_def isDouble_def)
  ultimately show ?thesis
    using slantedEye_safe by (simp add: slantedEye_ratio slantedEye_tripled_ratio)
qed

text \<open>
  C9, amended: scaling by a power of two is exact. For \<open>k = 2^n\<close> with \<open>-100 \<le> n \<le> 100\<close> and
  points whose coordinates are doubles that are zero or of magnitude \<open>2^-200 .. 2^200\<close>
  (so that nothing overflows or underflows), the ratio of the scaled eye is the ratio of
  the eye, whatever its length and its width.
\<close>

theorem C9_scaling_by_power_of_two:
  assumes "- 100 \<le> n" "n \<le> 100" "list_all safePoint eyePoints"
  shows "calculateEyeAspectRatio (map (scalePoint (Fin (2 powi n))) eyePoints)
         = calculateEyeAspectRatio eyePoints"
  using assms by (intro eye_scale) (simp_all add: list_all_iff)

theorem C9_scaling_witness:
  "list_all safePoint slantedEye
   \<and> calculateEyeAspectRatio (map (scalePoint (Fin 4)) slantedEye)
       = calculateEyeAspectRatio slantedEye
   \<and> calculateEyeAspectRatio (map (scalePoint (Fin (1 / 8))) slantedEye)
       = calculateEyeAspectRatio slantedEye"
  using C9_scaling_by_power_of_two [of 2 slantedEye] C9_scaling_by_power_of_two [of "- 3" slantedEye]
    slantedEye_safe
  by (simp add: power_int_minus)

section \<open>Properties of the history buffer\<close>

lemma trackClosure_keeps:
  "earValues (snd (trackClosure c t h)) = earValues h"
  "timestamps (snd (trackClosure c t h)) = timestamps h"
  "blinkStates (snd (trackClosure c t h)) = blinkStates h"
  "maxHistoryLength (snd (trackClosure c t h)) = maxHistoryLength h"
  by (simp_all add: trackClosure_def split: option.splits)

lemma analyze_earValues:
  "earValues (snd (analyzeDrowsinessPattern cfg ear t h)) = earValues (recordSample ear t h)"
  by (simp add: analyzeDrowsinessPattern_def Let_def trackClosure_keeps)

lemma analyze_timestamps:
  "timestamps (snd (analyzeDrowsinessPattern cfg ear t h)) = timestamps (recordSample ear t h)"
  by (simp add: analyzeDrowsinessPattern_def Let_def trackClosure_keeps)

lemma analyze_blinkStates:
  "length (blinkStates (snd (analyzeDrowsinessPattern cfg ear t h)))
     = Suc (length (blinkStates (recordSample ear t h)))"
  by (simp add: analyzeDrowsinessPattern_def Let_def trackClosure_keeps)

lemma analyze_maxHistoryLength:
  "maxHistoryLength (snd (analyzeDrowsinessPattern cfg ear t h)) = maxHistoryLength h"
  by (simp add: analyzeDrowsinessPattern_def Let_def trackClosure_keeps recordSample_def)

lemma analyzeAll_maxHistoryLength:
  "maxHistoryLength (analyzeAll cfg samples h) = maxHistoryLength h"
  by (induction samples arbitrary: h) (simp_all add: analyze_maxHistoryLength)

text \<open>One recorded sample: the window is the last \<open>cap\<close> entries of the extended sequence.\<close>

lemma recordSample_window:
  assumes "0 \<le> maxHistoryLength h" "int (length (earValues h)) \<le> maxHistoryLength h"
  shows "earValues (recordSample ear t h)
       = drop (Suc (length (earValues h)) - nat (maxHistoryLength h)) (earValues h @ [ear])"
proof (cases "int (length (earValues h)) + 1 > maxHistoryLength h")
  case True
  then have "nat (maxHistoryLength h) = length (earValues h)" using assms by linarith
  then show ?thesis using True by (simp add: recordSample_def Let_def shift_def)
next
  case False
  then have "Suc (length (earValues h)) - nat (maxHistoryLength h) = 0" by linarith
  then show ?thesis using False by (simp add: recordSample_def Let_def)
qed

lemma recordSample_window_ts:
  assumes "0 \<le> maxHistoryLength h" "int (length (earValues h)) \<le> maxHistoryLength h"
    "length (timestamps h) = length (earValues h)"
  shows "timestamps (recordSample ear t h)
       = drop (Suc (length (earValues h)) - nat (maxHistoryLength h)) (timestamps h @ [t])"
proof (cases "int (length (earValues h)) + 1 > maxHistoryLength h")
  case True
  then have "nat (maxHistoryLength h) = length (earValues h)" using assms by linarith
  then show ?thesis using True by (simp add: recordSample_def Let_def shift_def)
next
  case False
  then have "Suc (length (earValues h)) - nat (maxHistoryLength h) = 0" by linarith
  then show ?thesis using False by (simp add: recordSample_def Let_def)
qed

lemma drop_window_step:
  fixes A B :: "'a list"
  shows "drop (length (drop (length A - m) A @ B) - m) (drop (length A - m) A @ B)
       = drop (length (A @ B) - m) (A @ B)"
proof -
  let ?d = "length A - m"
  have a: "drop ?d A @ B = drop ?d (A @ B)" by simp
  have b: "(length (drop ?d (A @ B)) - m) + ?d = length (A @ B) - m" by simp
  have "drop (length (drop ?d (A @ B)) - m) (drop ?d (A @ B))
      = drop ((length (drop ?d (A @ B)) - m) + ?d) (A @ B)"
    by (rule drop_drop)
  then show ?thesis unfolding a b .
qed

lemma analyzeAll_window:
  assumes "0 \<le> maxHistoryLength h" "int (length (earValues h)) \<le> maxHistoryLength h"
    "length (timestamps h) = length (earValues h)"
  shows "earValues (analyzeAll cfg samples h)
           = drop (length (earValues h @ map fst samples) - nat (maxHistoryLength h))
                  (earValues h @ map fst samples)
       \<and> timestamps (analyzeAll cfg samples h)
           = drop (length (timestamps h @ map snd samples) - nat (maxHistoryLength h))
                  (timestamps h @ map snd samples)"
  using assms
proof (induction samples arbitrary: h)
  case Nil
  then show ?case by simp
next
  case (Cons s samples)
  let ?h = "snd (analyzeDrowsinessPattern cfg (fst s) (snd s) h)"
  let ?m = "nat (maxHistoryLength h)"
  have ev: "earValues ?h = drop (length (earValues h @ [fst s]) - ?m) (earValues h @ [fst s])"
    using Cons.prems by (simp add: analyze_earValues recordSample_window)
  have ts: "timestamps ?h = drop (length (timestamps h @ [snd s]) - ?m) (timestamps h @ [snd s])"
    using Cons.prems by (simp add: analyze_timestamps recordSample_window_ts)
  have m: "maxHistoryLength ?h = maxHistoryLength h"
    by (simp add: analyze_maxHistoryLength)
  have len: "int (length (earValues ?h)) \<le> maxHistoryLength ?h"
    using Cons.prems unfolding ev m by simp
  have eq: "length (timestamps ?h) = length (earValues ?h)"
    using Cons.prems unfolding ev ts by simp
  have ih: "earValues (analyzeAll cfg samples ?h)
           = drop (length (earValues ?h @ map fst samples) - ?m) (earValues ?h @ map fst samples)
       \<and> timestamps (analyzeAll cfg samples ?h)
           = drop (length (timestamps ?h @ map snd samples) - ?m) (timestamps ?h @ map snd samples)"
    using Cons.IH [of ?h] Cons.prems(1) len eq unfolding m by simp
  have e1: "earValues (analyzeAll cfg (s # samples) h)
      = drop (length ((earValues h @ [fst s]) @ map fst samples) - ?m)
             ((earValues h @ [fst s]) @ map fst samples)"
    using ih unfolding ev by (simp only: analyzeAll.simps drop_window_step)
  have e2: "timestamps (analyzeAll cfg (s # samples) h)
      = drop (length ((timestamps h @ [snd s]) @ map snd samples) - ?m)
             ((timestamps h @ [snd s]) @ map snd samples)"
    using ih unfolding ts by (simp only: analyzeAll.simps drop_window_step)
  show ?case using e1 e2 by simp
qed

text \<open>
  C7. Starting from the empty history with cap \<open>cap \<ge> 0\<close> (100 in the program), after any
  sequence of recorded samples the buffer holds at most \<open>cap\<close> entries, and \<open>earValues\<close> and
  \<open>timestamps\<close> are exactly the last \<open>cap\<close> recorded samples in insertion order; after
  \<open>cap + k\<close> samples that is the sequence without its first \<open>k\<close> entries.
\<close>

theorem C7_history_is_last_cap_samples:
  assumes "0 \<le> cap"
  shows "int (length (earValues (analyzeAll cfg samples (emptyHistory cap)))) \<le> cap
       \<and> earValues (analyzeAll cfg samples (emptyHistory cap))
           = drop (length samples - nat cap) (map fst samples)
       \<and> timestamps (analyzeAll cfg samples (emptyHistory cap))
           = drop (length samples - nat cap) (map snd samples)
       \<and> (\<forall>k. length samples = nat cap + k \<longrightarrow>
             length (earValues (analyzeAll cfg samples (emptyHistory cap))) = nat cap
           \<and> earValues (analyzeAll cfg samples (emptyHistory cap)) = drop k (map fst samples)
           \<and> timestamps (analyzeAll cfg samples (emptyHistory cap)) = drop k (map snd samples))"
proof -
  have w: "earValues (analyzeAll cfg samples (emptyHistory cap))
           = drop (length samples - nat cap) (map fst samples)
       \<and> timestamps (analyzeAll cfg samples (emptyHistory cap))
           = drop (length samples - nat cap) (map snd samples)"
    using analyzeAll_window [of "emptyHistory cap" cfg samples] assms
    by (simp add: emptyHistory_def)
  have "int (length (earValues (analyzeAll cfg samples (emptyHistory cap)))) \<le> cap"
    using assms unfolding conjunct1 [OF w] by simp
  then show ?thesis using w by auto
qed

theorem C7_history_witness:
  "(0::int) \<le> 2
   \<and> earValues (analyzeAll defaultConfig [(Fin 1, 10), (Fin 2, 20), (Fin 3, 30)] (emptyHistory 2))
       = [Fin 2, Fin 3]
   \<and> timestamps (analyzeAll defaultConfig [(Fin 1, 10), (Fin 2, 20), (Fin 3, 30)] (emptyHistory 2))
       = [20, 30]"
  using C7_history_is_last_cap_samples
    [of 2 defaultConfig "[(Fin 1, 10), (Fin 2, 20), (Fin 3, 30)]"]
  by simp

text \<open>
  C8. Each call of \<open>analyzeDrowsinessPattern\<close> that starts with the three sequences at equal
  length ends with them at equal length, for a cap of at least 1 (the program only ever
  uses 100).
\<close>

theorem C8_parallel_sequences_equal_length:
  assumes "length (earValues h) = length (timestamps h)"
    and "length (timestamps h) = length (blinkStates h)"
    and "1 \<le> maxHistoryLength h"
  shows "length (earValues (snd (analyzeDrowsinessPattern cfg ear t h)))
           = length (timestamps (snd (analyzeDrowsinessPattern cfg ear t h)))
       \<and> length (timestamps (snd (analyzeDrowsinessPattern cfg ear t h)))
           = length (blinkStates (snd (analyzeDrowsinessPattern cfg ear t h)))"
proof -
  have "blinkStates h \<noteq> [] \<or> \<not> int (Suc (length (earValues h))) > maxHistoryLength h"
    using assms by (cases "blinkStates h") auto
  then show ?thesis
    using assms(1,2)
    by (auto simp: analyze_earValues analyze_timestamps analyze_blinkStates recordSample_def
          Let_def shift_def)
qed

theorem C8_parallel_sequences_witness:
  "length (earValues (snd (analyzeDrowsinessPattern defaultConfig (Fin 0.3) 5 initialHistory)))
     = length (timestamps (snd (analyzeDrowsinessPattern defaultConfig (Fin 0.3) 5 initialHistory)))
   \<and> length (timestamps (snd (analyzeDrowsinessPattern defaultConfig (Fin 0.3) 5 initialHistory)))
     = length (blinkStates (snd (analyzeDrowsinessPattern defaultConfig (Fin 0.3) 5 initialHistory)))"
  using C8_parallel_sequences_equal_length [of initialHistory defaultConfig "Fin 0.3" 5]
  by (simp add: initialHistory_def emptyHistory_def)

section \<open>Properties of the drowsiness analysis\<close>

lemmas analysis_defs =
  analyzeDrowsinessPattern_def recordSample_def trackClosure_def shift_def Let_def
  countRecentBlinks_def sumEAR_def slice_from_def computeScore_def deriveAlert_def
  Math_max_def Math_min_def jsub_def jgt_def jge_def showInt_def showNat.simps digitChar_def
  defaultConfig_def initialHistory_def emptyHistory_def

lemma Math_max_95: "Math_max a (Fin 95) = NaN \<or> jge (Math_max a (Fin 95)) (Fin 95)"
  by (cases a) (simp_all add: Math_max_def jge_def)

lemma computeScore_sustained:
  "computeScore threshold average n True = NaN
   \<or> jge (computeScore threshold average n True) (Fin 95)"
  by (simp add: computeScore_def Let_def Math_max_95)

text \<open>Where no NaN comes in, none comes out: sums and quotients of the analysis.\<close>

lemma jadd_finite_notNaN: "acc \<noteq> NaN \<Longrightarrow> isFin v \<Longrightarrow> jadd acc v \<noteq> NaN"
  by (cases acc; cases v) simp_all

lemma foldl_jadd_notNaN:
  "\<forall>v\<in>set xs. isFin v \<Longrightarrow> acc \<noteq> NaN \<Longrightarrow> foldl jadd acc xs \<noteq> NaN"
proof (induction xs arbitrary: acc)
  case Nil
  then show ?case by simp
next
  case (Cons x xs)
  then have "jadd acc x \<noteq> NaN" by (simp add: jadd_finite_notNaN)
  then show ?case using Cons by simp
qed

lemma jdiv_notNaN: "a \<noteq> NaN \<Longrightarrow> b \<noteq> 0 \<Longrightarrow> jdiv a (Fin b) \<noteq> NaN"
  by (cases a) simp_all

lemma jmul_notNaN: "a \<noteq> NaN \<Longrightarrow> b \<noteq> 0 \<Longrightarrow> jmul a (Fin b) \<noteq> NaN"
  by (cases a) simp_all

lemma jsub_notNaN: "b \<noteq> NaN \<Longrightarrow> jsub (Fin a) b \<noteq> NaN"
  by (cases b) (simp_all add: jsub_def)

lemma Math_max_0_nonneg: "v \<noteq> NaN \<Longrightarrow> nonnegNum (Math_max (Fin 0) v)"
  by (cases v) (simp_all add: Math_max_def)

lemma nonnegNum_notNaN: "nonnegNum v \<Longrightarrow> v \<noteq> NaN"
  by (cases v) simp_all

lemma Math_min_notNaN: "v \<noteq> NaN \<Longrightarrow> Math_min (Fin a) v \<noteq> NaN"
  by (cases v) (simp_all add: Math_min_def)

lemma Math_max_95_notNaN: "a \<noteq> NaN \<Longrightarrow> jge (Math_max a (Fin 95)) (Fin 95)"
  by (cases a) (simp_all add: Math_max_def jge_def)

lemma average_notNaN:
  assumes "\<forall>v\<in>set xs. isFin v"
  shows "(if length xs > 0 then jdiv (sumEAR xs) (Fin (real (length xs))) else Fin 0) \<noteq> NaN"
proof -
  have "sumEAR xs \<noteq> NaN"
    unfolding sumEAR_def using assms by (intro foldl_jadd_notNaN) simp_all
  then show ?thesis by (simp add: jdiv_notNaN)
qed

lemma computeScore_sustained_notNaN:
  assumes "isFin threshold" "threshold \<noteq> Fin 0" "average \<noteq> NaN"
  shows "jge (computeScore threshold average n True) (Fin 95)"
proof -
  obtain th where th: "threshold = Fin th" "th \<noteq> 0"
    using assms(1,2) isFin_obtain by blast
  let ?e = "Math_max (Fin 0) (jmul (jdiv (jsub threshold average) threshold) (Fin 100))"
  let ?b = "Math_max (Fin 0) (jmul (jdiv (jsub (Fin 15) (Fin (real n))) (Fin 15)) (Fin 100))"
  have "jmul (jdiv (jsub threshold average) threshold) (Fin 100) \<noteq> NaN"
    unfolding th(1) using assms(3) th(2) by (intro jmul_notNaN jdiv_notNaN jsub_notNaN) simp_all
  then have e: "nonnegNum ?e" by (rule Math_max_0_nonneg)
  have "jmul (jdiv (jsub (Fin 15) (Fin (real n))) (Fin 15)) (Fin 100) \<noteq> NaN"
    by (intro jmul_notNaN jdiv_notNaN jsub_notNaN) simp_all
  then have b: "nonnegNum ?b" by (rule Math_max_0_nonneg)
  have "jadd ?e ?b \<noteq> NaN" using jadd_nonneg [OF e b] by (rule nonnegNum_notNaN)
  then have "Math_min (Fin 100) (jdiv (jadd ?e ?b) (Fin 2)) \<noteq> NaN"
    by (intro Math_min_notNaN jdiv_notNaN) simp_all
  then have "jge (Math_max (Math_min (Fin 100) (jdiv (jadd ?e ?b) (Fin 2))) (Fin 95)) (Fin 95)"
    by (rule Math_max_95_notNaN)
  then show ?thesis by (simp add: computeScore_def Let_def)
qed

lemma recordSample_finite:
  "isFin ear \<Longrightarrow> \<forall>v\<in>set (earValues h). isFin v \<Longrightarrow>
   \<forall>v\<in>set (earValues (recordSample ear t h)). isFin v"
  by (auto simp: recordSample_def Let_def shift_def dest: in_set_dropD)

text \<open>
  C2, as stated: on a frame with sustained closure the score is at least 95. It fails when
  the window holds a NaN sample (an eye whose six points coincide gives 0/0): the average
  and the score are NaN, \<open>Math.max(NaN, 95)\<close> is NaN, and \<open>NaN >= 95\<close> is false.
  Here a NaN sample at 9000 ms is followed by closed eyes from 10000 ms to 13000 ms.
\<close>

theorem C2_counterexample:
  "isSustainedClosure (fst (analyzeDrowsinessPattern defaultConfig (Fin 0) 13000 nanHistory))
   \<and> drowsinessScore (fst (analyzeDrowsinessPattern defaultConfig (Fin 0) 13000 nanHistory)) = NaN
   \<and> \<not> jge (drowsinessScore (fst (analyzeDrowsinessPattern defaultConfig (Fin 0) 13000 nanHistory)))
            (Fin 95)"
  by (simp add: nanHistory_def analysis_defs)

text \<open>
  C2, amended: on every frame with sustained closure the assessment has \<open>isDrowsy\<close> true and
  \<open>alertLevel\<close> critical, and its score is at least 95 unless it is NaN; it is at least 95
  whenever the threshold is finite and not zero and the current and the stored aspect
  ratios are finite.
\<close>

theorem C2_sustained_closure_assessment:
  assumes "isSustainedClosure (fst (analyzeDrowsinessPattern cfg ear t h))"
  shows "isDrowsy (fst (analyzeDrowsinessPattern cfg ear t h))
       \<and> alertLevel (fst (analyzeDrowsinessPattern cfg ear t h)) = critical
       \<and> (drowsinessScore (fst (analyzeDrowsinessPattern cfg ear t h)) = NaN
          \<or> jge (drowsinessScore (fst (analyzeDrowsinessPattern cfg ear t h))) (Fin 95))
       \<and> (isFin (earThreshold cfg) \<and> earThreshold cfg \<noteq> Fin 0 \<and> isFin ear
            \<and> (\<forall>v\<in>set (earValues h). isFin v)
          \<longrightarrow> jge (drowsinessScore (fst (analyzeDrowsinessPattern cfg ear t h))) (Fin 95))"
proof -
  let ?c = "jlt ear (earThreshold cfg)"
  let ?h1 = "recordSample ear t h"
  have s: "fst (trackClosure ?c t ?h1) \<ge> 3000"
    using assms by (simp add: analyzeDrowsinessPattern_def Let_def)
  have ev: "earValues (snd (trackClosure ?c t ?h1)) = earValues ?h1"
    by (rule trackClosure_keeps)
  have 1: "isDrowsy (fst (analyzeDrowsinessPattern cfg ear t h))"
    using s by (simp add: analyzeDrowsinessPattern_def Let_def)
  have 2: "alertLevel (fst (analyzeDrowsinessPattern cfg ear t h)) = critical"
    using s by (simp add: analyzeDrowsinessPattern_def Let_def deriveAlert_def)
  have 3: "drowsinessScore (fst (analyzeDrowsinessPattern cfg ear t h)) = NaN
          \<or> jge (drowsinessScore (fst (analyzeDrowsinessPattern cfg ear t h))) (Fin 95)"
    using s by (simp add: analyzeDrowsinessPattern_def Let_def computeScore_sustained)
  have 4: "jge (drowsinessScore (fst (analyzeDrowsinessPattern cfg ear t h))) (Fin 95)"
    if f: "isFin (earThreshold cfg) \<and> earThreshold cfg \<noteq> Fin 0 \<and> isFin ear
            \<and> (\<forall>v\<in>set (earValues h). isFin v)"
  proof -
    let ?h2 = "snd (trackClosure ?c t ?h1)"
    let ?avg = "if length (earValues ?h1) > 0
                then jdiv (sumEAR (earValues ?h1)) (Fin (real (length (earValues ?h1))))
                else Fin 0"
    let ?n = "countRecentBlinks (timestamps ?h2)
                (blinkStates ?h2 @ [?c \<and> fst (trackClosure ?c t ?h1) < 500]) (t - 60000)"
    have "\<forall>v\<in>set (earValues ?h1). isFin v"
      using f recordSample_finite [of ear h t] by blast
    then have avg: "?avg \<noteq> NaN"
      by (rule average_notNaN)
    have eq: "drowsinessScore (fst (analyzeDrowsinessPattern cfg ear t h))
                = computeScore (earThreshold cfg) ?avg ?n True"
      using s by (simp add: analyzeDrowsinessPattern_def Let_def ev)
    show ?thesis
      unfolding eq using f avg by (intro computeScore_sustained_notNaN) simp_all
  qed
  show ?thesis using 1 2 3 4 by blast
qed

theorem C2_sustained_closure_witness:
  "isSustainedClosure (fst (analyzeDrowsinessPattern defaultConfig (Fin 0) 13000 closedHistory))
   \<and> isDrowsy (fst (analyzeDrowsinessPattern defaultConfig (Fin 0) 13000 closedHistory))
   \<and> alertLevel (fst (analyzeDrowsinessPattern defaultConfig (Fin 0) 13000 closedHistory)) = critical
   \<and> jge (drowsinessScore (fst (analyzeDrowsinessPattern defaultConfig (Fin 0) 13000 closedHistory)))
          (Fin 95)"
proof -
  have s: "isSustainedClosure
             (fst (analyzeDrowsinessPattern defaultConfig (Fin 0) 13000 closedHistory))"
    by (simp add: closedHistory_def analysis_defs)
  have f: "isFin (earThreshold defaultConfig) \<and> earThreshold defaultConfig \<noteq> Fin 0
           \<and> isFin (Fin 0) \<and> (\<forall>v\<in>set (earValues closedHistory). isFin v)"
    by (simp add: closedHistory_def analysis_defs)
  show ?thesis
    using C2_sustained_closure_assessment [OF s] s f by blast
qed

section \<open>Properties of the alert policy and of frame processing\<close>

text \<open>What a processed frame writes, field by field.\<close>

lemma processFace_history:
  "detectionHistoryRef (processFace c clk ear e)
     = snd (analyzeDrowsinessPattern (seenConfig c) ear (tFrame clk) (detectionHistoryRef e))"
  by (simp add: processFace_def Let_def raiseAlerts_def triggerAlert_def)

lemma alertLog_processFace:
  "alertLog (processFace c clk ear e) =
     (if isSustainedClosure (frameAnalysis c clk ear e) \<and> seenLevel c \<noteq> critical
      then alertLog e @
           [(alertLevel (frameAnalysis c clk ear e), alertMessage (frameAnalysis c clk ear e))]
      else if isDrowsy (frameAnalysis c clk ear e)
              \<and> tCooldown clk - seenLastAlertTime c > alertCooldown (seenConfig c)
      then alertLog e @
           [(alertLevel (frameAnalysis c clk ear e), alertMessage (frameAnalysis c clk ear e))]
      else alertLog e)"
  by (simp add: processFace_def raiseAlerts_def triggerAlert_def Let_def frameAnalysis_def)

lemma alertState_processFace:
  "alertState (processFace c clk ear e) =
     (if (isSustainedClosure (frameAnalysis c clk ear e) \<and> seenLevel c \<noteq> critical)
         \<or> (isDrowsy (frameAnalysis c clk ear e)
             \<and> tCooldown clk - seenLastAlertTime c > alertCooldown (seenConfig c))
      then \<lparr>isActive = True, level = alertLevel (frameAnalysis c clk ear e),
            message = alertMessage (frameAnalysis c clk ear e), raisedAt = tAlert clk\<rparr>
      else alertState e)"
  by (simp add: processFace_def raiseAlerts_def triggerAlert_def Let_def frameAnalysis_def)

lemma detectFace_processFace:
  assumes "calculateEyeAspectRatio leftEye = Inr leftEAR"
    and "calculateEyeAspectRatio rightEye = Inr rightEAR"
    and "calculateMouthAspectRatio mouth = Inr mouthAR"
  shows "detectFaceAndEyes c clk (Face leftEye rightEye mouth) e
       = processFace c clk (jdiv (jadd leftEAR rightEAR) (Fin 2)) e"
  using assms by (simp add: detectFaceAndEyes_def)

text \<open>The parts of the assessment that do not depend on the score.\<close>

lemma analysis_closure:
  "eyeClosureDuration (fst (analyzeDrowsinessPattern cfg ear t h))
     = fst (trackClosure (jlt ear (earThreshold cfg)) t (recordSample ear t h))"
  "isSustainedClosure (fst (analyzeDrowsinessPattern cfg ear t h))
     = (3000 \<le> fst (trackClosure (jlt ear (earThreshold cfg)) t (recordSample ear t h)))"
  by (simp_all add: analyzeDrowsinessPattern_def Let_def)

lemma analysis_isDrowsy:
  "isDrowsy (fst (analyzeDrowsinessPattern cfg ear t h))
     = (jge (Fin (real (length (filter (\<lambda>v. jlt v (earThreshold cfg))
                                  (slice_from (- consecutiveFrames cfg)
                                     (earValues (recordSample ear t h)))))))
            (jmul (Fin (real_of_int (consecutiveFrames cfg))) (fl 0.8))
        \<or> 3000 \<le> fst (trackClosure (jlt ear (earThreshold cfg)) t (recordSample ear t h)))"
  by (simp add: analyzeDrowsinessPattern_def Let_def trackClosure_keeps)

lemma analysis_sustained_alert:
  assumes "isSustainedClosure (fst (analyzeDrowsinessPattern cfg ear t h))"
  shows "alertLevel (fst (analyzeDrowsinessPattern cfg ear t h)) = critical"
    and "alertMessage (fst (analyzeDrowsinessPattern cfg ear t h))
           = ''CRITICAL: Eyes closed for ''
             @ showInt ((eyeClosureDuration (fst (analyzeDrowsinessPattern cfg ear t h)) + 500)
                        div 1000)
             @ '' seconds! Wake up immediately!''"
  using assms by (simp_all add: analyzeDrowsinessPattern_def Let_def deriveAlert_def)

lemma analysis_history:
  "snd (analyzeDrowsinessPattern cfg ear t h)
     = (snd (trackClosure (jlt ear (earThreshold cfg)) t (recordSample ear t h)))
         \<lparr>blinkStates :=
            blinkStates (recordSample ear t h)
            @ [jlt ear (earThreshold cfg)
               \<and> fst (trackClosure (jlt ear (earThreshold cfg)) t (recordSample ear t h)) < 500]\<rparr>"
  by (simp add: analyzeDrowsinessPattern_def Let_def trackClosure_keeps)

lemma sustained_is_critical:
  "isSustainedClosure (frameAnalysis c clk ear e) \<Longrightarrow> alertLevel (frameAnalysis c clk ear e) = critical"
  by (simp add: frameAnalysis_def analysis_sustained_alert)


text \<open>
  C1, amended: a frame with sustained closure raises its (critical) alert whatever the
  cooldown, when the level that the frame's closure has captured is not critical. A frame
  without sustained closure, also one that is critical by a score above 80, raises its
  alert exactly when the assessment is drowsy and more than \<open>alertCooldown\<close> ms separate
  the frame from the captured \<open>lastAlertTime\<close>.
\<close>

theorem C1_sustained_closure_bypasses_cooldown:
  assumes "calculateEyeAspectRatio leftEye = Inr leftEAR"
    and "calculateEyeAspectRatio rightEye = Inr rightEAR"
    and "calculateMouthAspectRatio mouth = Inr mouthAR"
  shows "(isSustainedClosure (frameAnalysis c clk (jdiv (jadd leftEAR rightEAR) (Fin 2)) e)
            \<and> seenLevel c \<noteq> critical
          \<longrightarrow> alertLevel (frameAnalysis c clk (jdiv (jadd leftEAR rightEAR) (Fin 2)) e) = critical
            \<and> alertLog (detectFaceAndEyes c clk (Face leftEye rightEye mouth) e)
                = alertLog e @
                  [(critical,
                    alertMessage (frameAnalysis c clk (jdiv (jadd leftEAR rightEAR) (Fin 2)) e))])
       \<and> (\<not> isSustainedClosure (frameAnalysis c clk (jdiv (jadd leftEAR rightEAR) (Fin 2)) e)
          \<longrightarrow> alertLog (detectFaceAndEyes c clk (Face leftEye rightEye mouth) e)
                = (if isDrowsy (frameAnalysis c clk (jdiv (jadd leftEAR rightEAR) (Fin 2)) e)
                      \<and> tCooldown clk - seenLastAlertTime c > alertCooldown (seenConfig c)
                   then alertLog e @
                     [(alertLevel (frameAnalysis c clk (jdiv (jadd leftEAR rightEAR) (Fin 2)) e),
                       alertMessage (frameAnalysis c clk (jdiv (jadd leftEAR rightEAR) (Fin 2)) e))]
                   else alertLog e))"
  unfolding detectFace_processFace [OF assms] alertLog_processFace
  using sustained_is_critical [of c clk "jdiv (jadd leftEAR rightEAR) (Fin 2)" e]
  by auto


text \<open>A frame without a face touches the displayed statistics and the status only.\<close>

lemma noFace_keeps:
  "detectionHistoryRef (detectFaceAndEyes c clk NoFace e) = detectionHistoryRef e"
  "config (detectFaceAndEyes c clk NoFace e) = config e"
  "alertState (detectFaceAndEyes c clk NoFace e) = alertState e"
  "alertLog (detectFaceAndEyes c clk NoFace e) = alertLog e"
  "lastAlertTime (detectFaceAndEyes c clk NoFace e) = lastAlertTime e"
  "analytics (detectFaceAndEyes c clk NoFace e) = analytics e"
  "stats_eyeClosureDuration (stats (detectFaceAndEyes c clk NoFace e)) = 0"
  by (simp_all add: detectFaceAndEyes_def)

lemma closed_frame_duration:
  assumes "eyeClosureStartTime h = Some start" "jlt ear (earThreshold cfg)"
  shows "eyeClosureDuration (fst (analyzeDrowsinessPattern cfg ear t h)) = t - start"
  using assms
  by (simp add: analyzeDrowsinessPattern_def Let_def trackClosure_def recordSample_def)

text \<open>
  C6, amended: a frame without a face computes no closure duration and leaves the
  detection history as it is, the stored closure start time included (only the displayed
  closure duration is set to 0). The start time is thus carried over the gap: the next
  frame with closed eyes has closure duration its own timestamp minus that start time.
\<close>

theorem C6_no_face_keeps_closure_start:
  "detectionHistoryRef (detectFaceAndEyes c clk NoFace e) = detectionHistoryRef e
   \<and> alertLog (detectFaceAndEyes c clk NoFace e) = alertLog e
   \<and> stats_eyeClosureDuration (stats (detectFaceAndEyes c clk NoFace e)) = 0
   \<and> (eyeClosureStartTime (detectionHistoryRef e) = Some start
        \<and> jlt ear (earThreshold (seenConfig c))
      \<longrightarrow> eyeClosureDuration (frameAnalysis c later ear (detectFaceAndEyes c clk NoFace e))
            = tFrame later - start)"
  by (simp add: noFace_keeps frameAnalysis_def closed_frame_duration)

section \<open>Properties of the session aggregator\<close>

lemma updateAnalytics_sessions:
  "sessions (updateAnalytics now blinks earValue score lvl prev) = sessions prev"
  by (simp add: updateAnalytics_def Let_def)

lemma processFace_sessions:
  "sessions (analytics (processFace c clk ear e)) = sessions (analytics e)"
  by (simp add: processFace_def Let_def updateAnalytics_sessions raiseAlerts_def triggerAlert_def)

lemma detectFaceAndEyes_sessions:
  "sessions (analytics (detectFaceAndEyes c clk prediction e)) = sessions (analytics e)"
  by (cases prediction)
     (simp_all add: detectFaceAndEyes_def processFace_sessions split: sum.splits)

lemma step_sessions:
  assumes "\<And>nowEnd nowDuration. ev \<noteq> EndSession nowEnd nowDuration"
  shows "sessions (analytics (step c e ev)) = sessions (analytics e)"
  using assms
  by (cases ev)
     (auto simp: detectFaceAndEyes_sessions dismissAlert_def alertTimeoutFires_def
        testAlert_def triggerAlert_def startSession_def)

text \<open>
  C10. \<open>startSession\<close> on a state with an open session puts a fresh zeroed session in its
  place: the result does not depend on the session that was open, which gets no
  \<open>endTime\<close> and does not reach the archive. Of the operations on the engine only
  \<open>endSession\<close> changes the archive, and it prepends the ended session.
\<close>

theorem C10_startSession_discards_open_session:
  assumes "currentSession a = Some old"
  shows "currentSession (startSession nowId nowStart a) = Some (newSession nowId nowStart)
       \<and> sessions (startSession nowId nowStart a) = sessions a
       \<and> startSession nowId nowStart a = startSession nowId nowStart (a\<lparr>currentSession := None\<rparr>)
       \<and> endTime (newSession nowId nowStart) = None
       \<and> duration (newSession nowId nowStart) = 0
       \<and> totalBlinks (newSession nowId nowStart) = 0
       \<and> totalAlerts (newSession nowId nowStart) = 0
       \<and> earHistory (newSession nowId nowStart) = []
       \<and> drowsinessHistory (newSession nowId nowStart) = []
       \<and> (\<forall>c e ev. (\<forall>nowEnd nowDuration. ev \<noteq> EndSession nowEnd nowDuration)
             \<longrightarrow> sessions (analytics (step c e ev)) = sessions (analytics e))
       \<and> (\<exists>ended. endTime ended = Some nowEnd
             \<and> sessions (endSession nowEnd nowDuration st a) = ended # take 49 (sessions a))"
proof -
  have "\<exists>ended. endTime ended = Some nowEnd
          \<and> sessions (endSession nowEnd nowDuration st a) = ended # take 49 (sessions a)"
    using assms by (simp add: endSession_def Let_def)
  then show ?thesis
    using step_sessions by (simp add: startSession_def newSession_def)
qed

theorem C10_startSession_witness:
  "currentSession openSession = Some (newSession 1000 1001)
   \<and> currentSession (startSession 5000 5001 openSession) = Some (newSession 5000 5001)
   \<and> sessions (startSession 5000 5001 openSession) = []"
  using C10_startSession_discards_open_session [of openSession "newSession 1000 1001" 5000 5001]
  by (simp add: openSession_def startSession_def initialEngine_def)

section \<open>Runs of the engine\<close>

text \<open>The histories and alert states that the scenario runs reach.\<close>

lemma closedEye_ratio: "calculateEyeAspectRatio closedEye = Inr (Fin 0)"
  by (simp add: calculateEyeAspectRatio_def pointDistance_def pt_def closedEye_def jsub_def)

lemma restMouth_ratio: "calculateMouthAspectRatio restMouth = Inr (Fin 0)"
  by (simp add: calculateMouthAspectRatio_def pointDistance_def pt_def restMouth_def jsub_def)

lemma closedFace_frame:
  "detectFaceAndEyes c clk (Face closedEye closedEye restMouth) e = processFace c clk (Fin 0) e"
  by (simp add: detectFaceAndEyes_def closedEye_ratio restMouth_ratio)

text \<open>
  The literal 0.8 denotes the double \<open>7205759403792794 / 2^53\<close>; ten times it rounds to 8,
  the number of low samples that makes the default window drowsy.
\<close>

lemma fl_four_fifths: "fl (4 / 5) = Fin (7205759403792794 / 2 ^ 53)"
proof -
  have "fl (4 / 5) = Fin (real_of_int 7205759403792794 * 2 powi (- 1 - 52))"
    by (rule fl_eqI) (simp_all add: power_int_minus field_simps abs_if)
  then show ?thesis by (simp add: power_int_minus field_simps)
qed

lemma default_drowsy_count: "jmul (Fin 10) (fl (4 / 5)) = Fin 8"
proof -
  have "fl (10 * (7205759403792794 / 2 ^ 53)) = Fin (real_of_int 4503599627370496 * 2 powi (3 - 52))"
    by (rule fl_eqI) (simp_all add: power_int_minus field_simps abs_if)
  then have "fl (10 * (7205759403792794 / 2 ^ 53)) = Fin 8"
    by (simp add: power_int_minus field_simps)
  then show ?thesis by (simp only: fl_four_fifths jmul.simps)
qed

text \<open>
  The score of the first frame of a component when it shows closed eyes: the average ratio
  is 0, the frame counts as one blink, and the score is \<open>(100 + fl (fl (14/15) * 100)) / 2\<close>,
  the double 96.66666666666666 (the sum is a tie and rounds to the even neighbour).
\<close>

lemma firstFrame_score:
  "computeScore (Fin (1 / 4)) (Fin 0) (Suc 0) False = Fin (6802311937174186 / 2 ^ 46)"
proof -
  have q: "fl (1 / 4) = Fin (1 / 4)"
    using fl_dyadic_fraction [of 1 2] by simp
  have e: "jmul (jdiv (jsub (Fin (1 / 4)) (Fin 0)) (Fin (1 / 4))) (Fin 100) = Fin 100"
    using q by (simp add: jsub_def)
  have b1: "fl (14 / 15) = Fin (8406719304424926 / 2 ^ 53)"
  proof -
    have "fl (14 / 15) = Fin (real_of_int 8406719304424926 * 2 powi (- 1 - 52))"
      by (rule fl_eqI) (simp_all add: power_int_minus field_simps abs_if)
    then show ?thesis by (simp add: power_int_minus field_simps)
  qed
  have b2: "fl (8406719304424926 / 2 ^ 53 * 100) = Fin (6567749456581973 / 2 ^ 46)"
  proof -
    have "fl (8406719304424926 / 2 ^ 53 * 100)
          = Fin (real_of_int 6567749456581973 * 2 powi (6 - 52))"
      by (rule fl_eqI) (simp_all add: power_int_minus field_simps abs_if)
    then show ?thesis by (simp add: power_int_minus field_simps)
  qed
  have b: "jmul (jdiv (jsub (Fin 15) (Fin (real (Suc 0)))) (Fin 15)) (Fin 100)
           = Fin (6567749456581973 / 2 ^ 46)"
  proof -
    have "jsub (Fin 15) (Fin (real (Suc 0))) = Fin 14" by (simp add: jsub_def)
    then have "jdiv (jsub (Fin 15) (Fin (real (Suc 0)))) (Fin 15) = Fin (8406719304424926 / 2 ^ 53)"
      using b1 by simp
    then show ?thesis using b2 by (simp only: jmul.simps)
  qed
  have s1: "fl (100 + 6567749456581973 / 2 ^ 46) = Fin (6802311937174186 / 2 ^ 45)"
  proof -
    have tie: "(100 + 6567749456581973 / 2 ^ 46) / 2 powi (7 - 52)
          = real_of_int 6802311937174186 + 1 / 2"
      by (simp add: power_int_minus field_simps)
    have "rne (real_of_int 6802311937174186 + 1 / 2) = 6802311937174186"
      by (rule rne_tie_even) simp
    then have "rne ((100 + 6567749456581973 / 2 ^ 46) / 2 powi (7 - 52)) = 6802311937174186"
      by (simp only: tie)
    then have "fl (100 + 6567749456581973 / 2 ^ 46)
          = Fin (real_of_int 6802311937174186 * 2 powi (7 - 52))"
      by (intro fl_eq_rneI) (simp_all add: power_int_minus field_simps abs_if)
    then show ?thesis by (simp add: power_int_minus field_simps)
  qed
  have s2: "fl (6802311937174186 / 2 ^ 45 / 2) = Fin (6802311937174186 / 2 ^ 46)"
    using fl_dyadic_fraction [of 6802311937174186 46] by simp
  have m1: "Math_max (Fin 0) (Fin 100) = Fin 100"
    "Math_max (Fin 0) (Fin (6567749456581973 / 2 ^ 46)) = Fin (6567749456581973 / 2 ^ 46)"
    by (simp_all add: Math_max_def)
  have h: "jdiv (jadd (Fin 100) (Fin (6567749456581973 / 2 ^ 46))) (Fin 2)
           = Fin (6802311937174186 / 2 ^ 46)"
    using s1 s2 by (simp only: jadd.simps jdiv.simps) simp
  have m2: "Math_min (Fin 100) (Fin (6802311937174186 / 2 ^ 46)) = Fin (6802311937174186 / 2 ^ 46)"
    by (simp add: Math_min_def)
  show ?thesis
    unfolding computeScore_def Let_def e b m1 h m2 by simp
qed

lemmas run_defs =
  run_def closedFrame_def closedFace_frame atTime_def freshClosure_def renderClosure_def
  initialEngine_def defaultConfig_def initialHistory_def emptyHistory_def
  processFace_history alertLog_processFace alertState_processFace noFace_keeps
  frameAnalysis_def analysis_closure analysis_isDrowsy analysis_history
  recordSample_def trackClosure_def shift_def slice_from_def Let_def dismissAlert_def
  default_drowsy_count jge_def

lemma closingEngine_history:
  "detectionHistoryRef closingEngine =
     \<lparr>earValues = [Fin 0], blinkStates = [True], timestamps = [10000],
      maxHistoryLength = 100, eyeClosureStartTime = Some 10000, lastEyeClosureDuration = 0\<rparr>"
  by (simp add: closingEngine_def run_defs)

lemma gapEngine_history:
  "detectionHistoryRef gapEngine =
     \<lparr>earValues = [Fin 0], blinkStates = [True], timestamps = [10000],
      maxHistoryLength = 100, eyeClosureStartTime = Some 10000, lastEyeClosureDuration = 0\<rparr>"
  by (simp add: gapEngine_def run_defs)

lemma gapEngine_alertLog: "alertLog gapEngine = []"
  by (simp add: gapEngine_def run_defs)

lemma longClosureEngine_history:
  "detectionHistoryRef longClosureEngine =
     \<lparr>earValues = [Fin 0, Fin 0, Fin 0], blinkStates = [True, False, False],
      timestamps = [10000, 11000, 12000],
      maxHistoryLength = 100, eyeClosureStartTime = Some 10000, lastEyeClosureDuration = 0\<rparr>"
  by (simp add: longClosureEngine_def run_defs)

lemma longClosureEngine_alertLog: "alertLog longClosureEngine = []"
  by (simp add: longClosureEngine_def run_defs)




lemmas frame_defs =
  closedFace_frame alertLog_processFace frameAnalysis_def atTime_def
  analysis_closure analysis_isDrowsy analysis_sustained_alert
  recordSample_def trackClosure_def shift_def slice_from_def Let_def
  freshClosure_def renderClosure_def initialEngine_def defaultConfig_def
  initialHistory_def emptyHistory_def showInt_def showNat.simps digitChar_def
  default_drowsy_count jge_def

text \<open>
  C1, as stated: every frame whose derived level is critical raises its alert whatever the
  cooldown. It fails on the first frame of a freshly mounted component when that frame
  shows closed eyes: the score is above 80 and the level critical, there is no sustained
  closure, and one low sample out of ten does not make the assessment drowsy, so line 724
  raises nothing.
\<close>

theorem C1_counterexample:
  "alertLevel (frameAnalysis freshClosure (atTime 10000) (Fin 0) initialEngine) = critical
   \<and> jgt (drowsinessScore (frameAnalysis freshClosure (atTime 10000) (Fin 0) initialEngine))
          (Fin 80)
   \<and> \<not> isSustainedClosure (frameAnalysis freshClosure (atTime 10000) (Fin 0) initialEngine)
   \<and> \<not> isDrowsy (frameAnalysis freshClosure (atTime 10000) (Fin 0) initialEngine)
   \<and> calculateEyeAspectRatio closedEye = Inr (Fin 0)
   \<and> alertLog (detectFaceAndEyes freshClosure (atTime 10000)
                 (Face closedEye closedEye restMouth) initialEngine) = []"
proof -
  have f: "frameAnalysis freshClosure (atTime 10000) (Fin 0) initialEngine
         = fst (analyzeDrowsinessPattern defaultConfig (Fin 0) 10000 initialHistory)"
    by (simp add: frameAnalysis_def freshClosure_def renderClosure_def initialEngine_def
          atTime_def)
  have s: "\<not> isSustainedClosure (fst (analyzeDrowsinessPattern defaultConfig (Fin 0) 10000 initialHistory))"
    by (simp add: frame_defs)
  have d: "\<not> isDrowsy (fst (analyzeDrowsinessPattern defaultConfig (Fin 0) 10000 initialHistory))"
    by (simp add: frame_defs)
  have v: "drowsinessScore (fst (analyzeDrowsinessPattern defaultConfig (Fin 0) 10000 initialHistory))
           = Fin (6802311937174186 / 2 ^ 46)"
    using firstFrame_score
    by (simp add: analyzeDrowsinessPattern_def recordSample_def trackClosure_def shift_def
          Let_def countRecentBlinks_def sumEAR_def defaultConfig_def initialHistory_def
          emptyHistory_def)
  have l: "alertLevel (fst (analyzeDrowsinessPattern defaultConfig (Fin 0) 10000 initialHistory))
           = critical"
    using firstFrame_score
    by (simp add: analyzeDrowsinessPattern_def recordSample_def trackClosure_def shift_def
          Let_def countRecentBlinks_def sumEAR_def defaultConfig_def initialHistory_def
          emptyHistory_def deriveAlert_def jgt_def)
  show ?thesis
    unfolding closedFace_frame alertLog_processFace f
    using s d v l by (simp add: closedEye_ratio jgt_def initialEngine_def)
qed

theorem C1_sustained_closure_witness:
  "isSustainedClosure (frameAnalysis hurriedClosure (atTime 13000) (Fin 0) longClosureEngine)
   \<and> seenLevel hurriedClosure \<noteq> critical
   \<and> seenLastAlertTime hurriedClosure = 12900
   \<and> alertLog (detectFaceAndEyes hurriedClosure (atTime 13000)
                 (Face closedEye closedEye restMouth) longClosureEngine)
       = [(critical, ''CRITICAL: Eyes closed for 3 seconds! Wake up immediately!'')]"
proof -
  have avg: "jdiv (jadd (Fin 0) (Fin 0)) (Fin 2) = Fin 0" by simp
  have s: "isSustainedClosure (frameAnalysis hurriedClosure (atTime 13000) (Fin 0) longClosureEngine)"
    by (simp add: longClosureEngine_history hurriedClosure_def frame_defs)
  have l: "seenLevel hurriedClosure \<noteq> critical" "seenLastAlertTime hurriedClosure = 12900"
    by (simp_all add: hurriedClosure_def freshClosure_def renderClosure_def initialEngine_def)
  have m: "alertMessage (frameAnalysis hurriedClosure (atTime 13000) (Fin 0) longClosureEngine)
             = ''CRITICAL: Eyes closed for 3 seconds! Wake up immediately!''"
    using s by (simp add: longClosureEngine_history hurriedClosure_def frame_defs)
  show ?thesis
    using C1_sustained_closure_bypasses_cooldown
      [OF closedEye_ratio closedEye_ratio restMouth_ratio,
       of hurriedClosure "atTime 13000" longClosureEngine] s l
    unfolding avg m longClosureEngine_alertLog by simp
qed


text \<open>
  C6, as stated: a frame without a face does not carry the closure start time forward. It
  fails: eyes closed at 10000 ms, no face at 10100 ms, and the next frame with closed eyes
  at 15000 ms has a closure duration of 5000 ms and raises the sustained-closure alert.
\<close>

theorem C6_counterexample:
  "eyeClosureStartTime (detectionHistoryRef gapEngine) = Some 10000
   \<and> eyeClosureDuration (frameAnalysis freshClosure (atTime 15000) (Fin 0) gapEngine) = 5000
   \<and> isSustainedClosure (frameAnalysis freshClosure (atTime 15000) (Fin 0) gapEngine)
   \<and> alertLog (detectFaceAndEyes freshClosure (atTime 15000)
                 (Face closedEye closedEye restMouth) gapEngine)
       = [(critical, ''CRITICAL: Eyes closed for 5 seconds! Wake up immediately!'')]"
  by (simp add: gapEngine_history gapEngine_alertLog frame_defs)

theorem C6_no_face_witness:
  "eyeClosureStartTime (detectionHistoryRef closingEngine) = Some 10000
   \<and> jlt (Fin 0) (earThreshold (seenConfig freshClosure))
   \<and> eyeClosureDuration
        (frameAnalysis freshClosure (atTime 15000) (Fin 0)
           (detectFaceAndEyes freshClosure (atTime 10100) NoFace closingEngine))
       = 5000"
  using C6_no_face_keeps_closure_start
    [of freshClosure "atTime 10100" closingEngine 10000 "Fin 0" "atTime 15000"]
  by (simp add: closingEngine_history atTime_def freshClosure_def renderClosure_def
        initialEngine_def defaultConfig_def)

end
